theory Spec2Isabelle
  imports Complex_Main "HOL-Library.Word" "HOL-Library.Log_Nat"
begin

section \<open>The dctdnoiz filter (libavfilter/vf_dctdnoiz.c)\<close>

text \<open>
  A shallow embedding of the DCT denoiser. C \<open>int\<close> values are modelled by \<open>int\<close>
  (image dimensions and buffer offsets are assumed to stay inside the 32-bit range, so no
  wrap-around is written out). Buffers are stores from offsets to values; a pointer is a
  buffer together with an offset into it.
\<close>

subsection \<open>Floating-point values\<close>

text \<open>
  A finite \<open>float\<close> or \<open>double\<close> is the rational it denotes; the infinities and NaN are
  collapsed into one absorbing non-finite value (every operation of the filter maps a
  non-finite operand to a non-finite result). Every arithmetic operation rounds to nearest,
  ties to even, in the format of its C type (binary32 for \<open>float\<close>, binary64 for
  \<open>double\<close>), each operation evaluated in the format of its type.
\<close>

datatype cfloat = Fin rat | NonFinite

datatype cdouble = DFin rat | DNonFinite

definition round_even :: "rat \<Rightarrow> int" where
  "round_even y =
     (let f = \<lfloor>y\<rfloor>; r = y - of_int f
      in if r < 1 / 2 then f else if 1 / 2 < r then f + 1 else if even f then f else f + 1)"

text \<open>The binary exponent \<open>\<lfloor>log\<^sub>2 x\<rfloor>\<close> of a positive rational.\<close>

definition ilog2 :: "rat \<Rightarrow> int" where
  "ilog2 x = (if 1 \<le> x then bitlen \<lfloor>x\<rfloor> - 1 else - bitlen (\<lceil>1 / x\<rceil> - 1))"

text \<open>Rounding to \<open>p\<close> significant bits, with least exponent \<open>emin\<close> (gradual underflow).\<close>

definition round_bin :: "nat \<Rightarrow> int \<Rightarrow> rat \<Rightarrow> rat" where
  "round_bin p emin x =
     (if x = 0 then 0
      else let e = max (ilog2 \<bar>x\<bar>) emin; u = 2 powi (e - (int p - 1))
           in of_int (round_even (x / u)) * u)"

definition FLT_MAX :: rat where
  "FLT_MAX = (2 ^ 24 - 1) * 2 ^ 104"

definition DBL_MAX :: rat where
  "DBL_MAX = (2 ^ 53 - 1) * 2 ^ 971"

definition f32 :: "rat \<Rightarrow> cfloat" where
  "f32 x = (let y = round_bin 24 (- 126) x in if FLT_MAX < \<bar>y\<bar> then NonFinite else Fin y)"

definition f64 :: "rat \<Rightarrow> cdouble" where
  "f64 x = (let y = round_bin 53 (- 1022) x in if DBL_MAX < \<bar>y\<bar> then DNonFinite else DFin y)"

instantiation cfloat :: "{plus, minus, times, uminus}"
begin

definition plus_cfloat :: "cfloat \<Rightarrow> cfloat \<Rightarrow> cfloat" where
  "plus_cfloat a b = (case a of Fin x \<Rightarrow> (case b of Fin y \<Rightarrow> f32 (x + y) | NonFinite \<Rightarrow> NonFinite)
                              | NonFinite \<Rightarrow> NonFinite)"

definition minus_cfloat :: "cfloat \<Rightarrow> cfloat \<Rightarrow> cfloat" where
  "minus_cfloat a b = (case a of Fin x \<Rightarrow> (case b of Fin y \<Rightarrow> f32 (x - y) | NonFinite \<Rightarrow> NonFinite)
                               | NonFinite \<Rightarrow> NonFinite)"

definition times_cfloat :: "cfloat \<Rightarrow> cfloat \<Rightarrow> cfloat" where
  "times_cfloat a b = (case a of Fin x \<Rightarrow> (case b of Fin y \<Rightarrow> f32 (x * y) | NonFinite \<Rightarrow> NonFinite)
                               | NonFinite \<Rightarrow> NonFinite)"

definition uminus_cfloat :: "cfloat \<Rightarrow> cfloat" where
  "uminus_cfloat a = (case a of Fin x \<Rightarrow> Fin (- x) | NonFinite \<Rightarrow> NonFinite)"

instance ..

end

instantiation cdouble :: "{plus, minus, times, uminus, inverse}"
begin

definition plus_cdouble :: "cdouble \<Rightarrow> cdouble \<Rightarrow> cdouble" where
  "plus_cdouble a b = (case a of DFin x \<Rightarrow> (case b of DFin y \<Rightarrow> f64 (x + y) | DNonFinite \<Rightarrow> DNonFinite)
                               | DNonFinite \<Rightarrow> DNonFinite)"

definition minus_cdouble :: "cdouble \<Rightarrow> cdouble \<Rightarrow> cdouble" where
  "minus_cdouble a b = (case a of DFin x \<Rightarrow> (case b of DFin y \<Rightarrow> f64 (x - y) | DNonFinite \<Rightarrow> DNonFinite)
                                | DNonFinite \<Rightarrow> DNonFinite)"

definition times_cdouble :: "cdouble \<Rightarrow> cdouble \<Rightarrow> cdouble" where
  "times_cdouble a b = (case a of DFin x \<Rightarrow> (case b of DFin y \<Rightarrow> f64 (x * y) | DNonFinite \<Rightarrow> DNonFinite)
                                | DNonFinite \<Rightarrow> DNonFinite)"

definition uminus_cdouble :: "cdouble \<Rightarrow> cdouble" where
  "uminus_cdouble a = (case a of DFin x \<Rightarrow> DFin (- x) | DNonFinite \<Rightarrow> DNonFinite)"

text \<open>Division by zero gives an infinity or NaN; it does not trap.\<close>

definition divide_cdouble :: "cdouble \<Rightarrow> cdouble \<Rightarrow> cdouble" where
  "divide_cdouble a b =
     (case a of DFin x \<Rightarrow> (case b of DFin y \<Rightarrow> if y = 0 then DNonFinite else f64 (x / y)
                                   | DNonFinite \<Rightarrow> DNonFinite)
              | DNonFinite \<Rightarrow> DNonFinite)"

definition inverse_cdouble :: "cdouble \<Rightarrow> cdouble" where
  "inverse_cdouble b =
     (case b of DFin y \<Rightarrow> if y = 0 then DNonFinite else f64 (1 / y) | DNonFinite \<Rightarrow> DNonFinite)"

instance ..

end

text \<open>Literals and the implicit conversions of C.\<close>

definition flit :: "rat \<Rightarrow> cfloat" where
  "flit x = f32 x"

definition dlit :: "rat \<Rightarrow> cdouble" where
  "dlit x = f64 x"

definition d_of_f :: "cfloat \<Rightarrow> cdouble" where
  "d_of_f a = (case a of Fin x \<Rightarrow> DFin x | NonFinite \<Rightarrow> DNonFinite)"

definition f_of_d :: "cdouble \<Rightarrow> cfloat" where
  "f_of_d a = (case a of DFin x \<Rightarrow> f32 x | DNonFinite \<Rightarrow> NonFinite)"

definition f_of_int :: "int \<Rightarrow> cfloat" where
  "f_of_int i = f32 (of_int i)"

definition d_of_int :: "int \<Rightarrow> cdouble" where
  "d_of_int i = f64 (of_int i)"

text \<open>\<open>FFABS(a)\<close> is \<open>(a) >= 0 ? (a) : -(a)\<close>; the comparison is false on NaN.\<close>

definition FFABS :: "cfloat \<Rightarrow> cfloat" where
  "FFABS a = (case a of Fin x \<Rightarrow> if 0 \<le> x then Fin x else Fin (- x) | NonFinite \<Rightarrow> NonFinite)"

text \<open>\<open>a < b\<close> on floats; a comparison with a non-finite operand is taken as false
  (as it is for NaN and for \<open>+inf < b\<close>; FFABS never yields \<open>-inf\<close>).\<close>

definition flt :: "cfloat \<Rightarrow> cfloat \<Rightarrow> bool" where
  "flt a b = (case a of Fin x \<Rightarrow> (case b of Fin y \<Rightarrow> x < y | NonFinite \<Rightarrow> False) | NonFinite \<Rightarrow> False)"

subsection \<open>Outcomes\<close>

datatype status = Returned int | Aborted | Undefined

text \<open>Modelled from the spec: the error macros of libavutil and errno.h are not part of the
  sources here; a configuration error is \<open>AVERROR(EINVAL)\<close> and resource exhaustion is
  \<open>AVERROR(ENOMEM)\<close>, both negative.\<close>

definition EINVAL :: int where "EINVAL = 22"

definition ENOMEM :: int where "ENOMEM = 12"

definition AVERROR :: "int \<Rightarrow> int" where "AVERROR e = - e"

subsection \<open>The filter context\<close>

text \<open>A parsed expression is the function of the variable \<open>c\<close> that \<open>av_expr_eval\<close> computes.\<close>

type_synonym AVExpr = "cdouble \<Rightarrow> cdouble"

datatype freq_func =
  Filter_freq_sigma_8 | Filter_freq_sigma_16 | Filter_freq_expr_8 | Filter_freq_expr_16

datatype color_func = Color_rgb | Color_bgr

datatype AVPixelFormat = AV_PIX_FMT_BGR24 | AV_PIX_FMT_RGB24 | AV_PIX_FMT_OTHER

text \<open>
  \<open>DCTdnoizContext\<close>. The two colour buffers \<open>cbuf\<close> and the slot \<open>var_values\<close> are scratch
  storage, written before they are read in every frame, and are locals of the model of
  \<open>filter_frame\<close>. A function pointer is the name of its target; \<open>None\<close> is \<open>NULL\<close>.
\<close>

record DCTdnoizContext =
  expr_str :: "string option"
  expr :: "AVExpr option"
  pr_width :: int
  pr_height :: int
  sigma :: cfloat
  th :: cfloat
  weights :: "int \<Rightarrow> cfloat"
  p_linesize :: int
  overlap :: int
  step :: int
  n :: int
  bsize :: int
  filter_freq_func :: "freq_func option"
  color_decorrelation_func :: "color_func option"
  color_correlation_func :: "color_func option"


subsection \<open>init\<close>

text \<open>
  \<open>av_expr_parse\<close> is an external collaborator: it is a parameter that maps the expression
  string to its return value and to what it stores into \<open>s->expr\<close>.
\<close>

definition init_finish :: "DCTdnoizContext \<Rightarrow> status \<times> DCTdnoizContext" where
  "init_finish s =
     (Returned 0, s\<lparr>th := f_of_d (d_of_f (sigma s) * dlit 3), step := bsize s - overlap s\<rparr>)"

definition init :: "(string \<Rightarrow> int \<times> AVExpr option) \<Rightarrow> DCTdnoizContext \<Rightarrow> status \<times> DCTdnoizContext" where
  "init av_expr_parse s0 =
     (let s1 = s0\<lparr>bsize := 2 ^ nat (n s0)\<rparr>;
          s2 = (if overlap s1 = - 1 then s1\<lparr>overlap := bsize s1 - 1\<rparr> else s1)
      in if overlap s2 > bsize s2 - 1 then (Returned (AVERROR EINVAL), s2)
         else (case expr_str s2 of
                 Some str \<Rightarrow>
                   (let (ret, e) = av_expr_parse str; s3 = s2\<lparr>expr := e\<rparr>
                    in if ret < 0 then (Returned ret, s3)
                       else if n s3 = 3 then init_finish (s3\<lparr>filter_freq_func := Some Filter_freq_expr_8\<rparr>)
                       else if n s3 = 4 then init_finish (s3\<lparr>filter_freq_func := Some Filter_freq_expr_16\<rparr>)
                       else (Aborted, s3))
               | None \<Rightarrow>
                   (if n s2 = 3 then init_finish (s2\<lparr>filter_freq_func := Some Filter_freq_sigma_8\<rparr>)
                    else if n s2 = 4 then init_finish (s2\<lparr>filter_freq_func := Some Filter_freq_sigma_16\<rparr>)
                    else (Aborted, s2))))"

subsection \<open>Geometry\<close>

text \<open>The C operators \<open>/\<close> and \<open>%\<close> on \<open>int\<close> truncate towards zero.\<close>

definition c_div :: "int \<Rightarrow> int \<Rightarrow> int" where
  "c_div a b = sgn a * sgn b * (\<bar>a\<bar> div \<bar>b\<bar>)"

definition c_rem :: "int \<Rightarrow> int \<Rightarrow> int" where
  "c_rem a b = a - c_div a b * b"

text \<open>The cropping rule of \<open>config_input\<close>: \<open>dim - (dim - bsize) % step\<close>.\<close>

definition processable_dim :: "int \<Rightarrow> int \<Rightarrow> int \<Rightarrow> int" where
  "processable_dim d bs stp = d - c_rem (d - bs) stp"

text \<open>The cropping rule in the words of the specification, with the mathematical \<open>mod\<close>.\<close>

definition spec_processable_dim :: "int \<Rightarrow> int \<Rightarrow> int \<Rightarrow> int" where
  "spec_processable_dim d bs stp = d - ((d - bs) mod stp)"

text \<open>Modelled from the spec: the macro \<open>FFALIGN\<close> of libavutil is not part of the sources
  here; the row stride is the width padded for alignment, here rounded up to the next
  multiple of \<open>a\<close>.\<close>

definition FFALIGN :: "int \<Rightarrow> int \<Rightarrow> int" where
  "FFALIGN x a = ((x + a - 1) div a) * a"

subsection \<open>Loops\<close>

text \<open>
  \<open>for (y = y0; y < ylim; y += stp) body\<close>. The loop does not terminate when \<open>stp \<le> 0\<close> and
  \<open>y0 < ylim\<close>; not returning is the value \<open>None\<close>.
\<close>

partial_function (option) for_step :: "int \<Rightarrow> int \<Rightarrow> int \<Rightarrow> (int \<Rightarrow> 'a \<Rightarrow> 'a option) \<Rightarrow> 'a \<Rightarrow> 'a option" where
  "for_step y ylim stp body st =
     (if y < ylim then Option.bind (body y st) (for_step (y + stp) ylim stp body) else Some st)"

subsection \<open>config_input\<close>

text \<open>One block at \<open>(x, y)\<close>: the two inner loops over \<open>by\<close> and \<open>bx\<close>.\<close>

definition count_block :: "int \<Rightarrow> int \<Rightarrow> int \<Rightarrow> int \<Rightarrow> (int \<Rightarrow> int) \<Rightarrow> (int \<Rightarrow> int)" where
  "count_block bs linesize y x iweights =
     fold (\<lambda>by iw. fold (\<lambda>bx iw. iw((y + by) * linesize + x + bx := iw ((y + by) * linesize + x + bx) + 1))
                         [0..bs - 1] iw)
          [0..bs - 1] iweights"

definition count_blocks :: "int \<Rightarrow> int \<Rightarrow> int \<Rightarrow> int \<Rightarrow> int \<Rightarrow> (int \<Rightarrow> int) \<Rightarrow> (int \<Rightarrow> int) option" where
  "count_blocks prw prh bs stp linesize iweights =
     for_step 0 (prh - bs + 1) stp
       (\<lambda>y iw. for_step 0 (prw - bs + 1) stp (\<lambda>x iw. Some (count_block bs linesize y x iw)) iw)
       iweights"

text \<open>\<open>s->weights[y*linesize + x] = 1. / iweights[y*linesize + x]\<close>: a division of doubles,
  stored as a float.\<close>

definition set_weights :: "int \<Rightarrow> int \<Rightarrow> int \<Rightarrow> (int \<Rightarrow> int) \<Rightarrow> (int \<Rightarrow> cfloat) \<Rightarrow> (int \<Rightarrow> cfloat)" where
  "set_weights prw prh linesize iweights ws =
     fold (\<lambda>y ws. fold (\<lambda>x ws. ws(y * linesize + x := f_of_d (dlit 1 / d_of_int (iweights (y * linesize + x)))))
                        [0..prw - 1] ws)
          [0..prh - 1] ws"

text \<open>
  \<open>alloc_ok k\<close> tells whether the \<open>k\<close>-th allocation succeeds (the six colour buffers, the
  weights, the counters); \<open>fresh\<close> is the content of the uninitialised weights buffer.
  A remainder by zero is undefined.
\<close>

definition config_input ::
  "(nat \<Rightarrow> bool) \<Rightarrow> (int \<Rightarrow> cfloat) \<Rightarrow> AVPixelFormat \<Rightarrow> int \<Rightarrow> int \<Rightarrow> DCTdnoizContext
     \<Rightarrow> (status \<times> DCTdnoizContext) option" where
  "config_input alloc_ok fresh format w h s0 =
     (let bs = 2 ^ nat (n s0)
      in case (case format of
                 AV_PIX_FMT_BGR24 \<Rightarrow>
                   Some (s0\<lparr>color_decorrelation_func := Some Color_bgr, color_correlation_func := Some Color_bgr\<rparr>)
               | AV_PIX_FMT_RGB24 \<Rightarrow>
                   Some (s0\<lparr>color_decorrelation_func := Some Color_rgb, color_correlation_func := Some Color_rgb\<rparr>)
               | AV_PIX_FMT_OTHER \<Rightarrow> None) of
           None \<Rightarrow> Some (Aborted, s0)
         | Some s1 \<Rightarrow>
             if step s1 = 0 then Some (Undefined, s1)
             else
               let s2 = s1\<lparr>pr_width := processable_dim w bs (step s1),
                          pr_height := processable_dim h bs (step s1)\<rparr>;
                   linesize = FFALIGN (pr_width s2) 32;
                   s3 = s2\<lparr>p_linesize := linesize\<rparr>
               in if \<not> (alloc_ok 0 \<and> alloc_ok 1 \<and> alloc_ok 2) then Some (Returned (AVERROR ENOMEM), s3)
                  else if \<not> (alloc_ok 3 \<and> alloc_ok 4 \<and> alloc_ok 5) then Some (Returned (AVERROR ENOMEM), s3)
                  else if \<not> alloc_ok 6 then Some (Returned (AVERROR ENOMEM), s3)
                  else
                    let s4 = s3\<lparr>weights := fresh\<rparr>
                    in if \<not> alloc_ok 7 then Some (Returned (AVERROR ENOMEM), s4)
                       else
                         Option.bind (count_blocks (pr_width s4) (pr_height s4) bs (step s4) linesize (\<lambda>_. 0))
                           (\<lambda>iweights.
                              Some (Returned 0,
                                    s4\<lparr>weights := set_weights (pr_width s4) (pr_height s4) linesize iweights fresh\<rparr>)))"

subsection \<open>The one-dimensional transforms\<close>

text \<open>
  The butterflies of \<open>fdct8_1d\<close>, \<open>idct8_1d\<close>, \<open>fdct16_1d\<close> and \<open>idct16_1d\<close>. A
  constant without suffix is a \<open>double\<close>, so an expression that contains one is evaluated in
  binary64 and rounded to binary32 when it is stored into a \<open>float\<close>; a sum or difference
  of two floats is a binary32 operation. Source and destination are distinct buffers in
  every call.
\<close>

text \<open>One iteration of the loop of \<open>fdct8_1d\<close>: the transform of the line at \<open>src + s\<close>,
  written to the line at \<open>dst + d\<close>.\<close>

definition fdct8_line :: "(int \<Rightarrow> cfloat) \<Rightarrow> int \<Rightarrow> (int \<Rightarrow> cfloat) \<Rightarrow> int \<Rightarrow> int \<Rightarrow> int \<Rightarrow> (int \<Rightarrow> cfloat)" where
  "fdct8_line dst d src s dst_stridea src_stridea =
     (let x00 = src (s + 0 * src_stridea) + src (s + 7 * src_stridea);
          x01 = src (s + 1 * src_stridea) + src (s + 6 * src_stridea);
          x02 = src (s + 2 * src_stridea) + src (s + 5 * src_stridea);
          x03 = src (s + 3 * src_stridea) + src (s + 4 * src_stridea);
          x04 = src (s + 0 * src_stridea) - src (s + 7 * src_stridea);
          x05 = src (s + 1 * src_stridea) - src (s + 6 * src_stridea);
          x06 = src (s + 2 * src_stridea) - src (s + 5 * src_stridea);
          x07 = src (s + 3 * src_stridea) - src (s + 4 * src_stridea);
          x08 = x00 + x03;
          x09 = x01 + x02;
          x0a = x00 - x03;
          x0b = x01 - x02;
          x0c = f_of_d (dlit 1.38703984532215 * d_of_f x04 + dlit 0.275899379282943 * d_of_f x07);
          x0d = f_of_d (dlit 1.17587560241936 * d_of_f x05 + dlit 0.785694958387102 * d_of_f x06);
          x0e = f_of_d ((- dlit 0.785694958387102) * d_of_f x05 + dlit 1.17587560241936 * d_of_f x06);
          x0f = f_of_d (dlit 0.275899379282943 * d_of_f x04 - dlit 1.38703984532215 * d_of_f x07);
          x10 = f_of_d (dlit 0.353553390593274 * d_of_f (x0c - x0d));
          x11 = f_of_d (dlit 0.353553390593274 * d_of_f (x0e - x0f));
          dst = dst(d + 0 * dst_stridea := f_of_d (dlit 0.353553390593274 * d_of_f (x08 + x09)));
          dst = dst(d + 1 * dst_stridea := f_of_d (dlit 0.353553390593274 * d_of_f (x0c + x0d)));
          dst = dst(d + 2 * dst_stridea := f_of_d (dlit 0.461939766255643 * d_of_f x0a + dlit 0.191341716182545 * d_of_f x0b));
          dst = dst(d + 3 * dst_stridea := f_of_d (dlit 0.707106781186547 * d_of_f (x10 - x11)));
          dst = dst(d + 4 * dst_stridea := f_of_d (dlit 0.353553390593274 * d_of_f (x08 - x09)));
          dst = dst(d + 5 * dst_stridea := f_of_d (dlit 0.707106781186547 * d_of_f (x10 + x11)));
          dst = dst(d + 6 * dst_stridea := f_of_d (dlit 0.191341716182545 * d_of_f x0a - dlit 0.461939766255643 * d_of_f x0b));
          dst = dst(d + 7 * dst_stridea := f_of_d (dlit 0.353553390593274 * d_of_f (x0e + x0f)))
      in dst)"

definition fdct8_1d :: "(int \<Rightarrow> cfloat) \<Rightarrow> int \<Rightarrow> (int \<Rightarrow> cfloat) \<Rightarrow> int \<Rightarrow> int \<Rightarrow> int \<Rightarrow> int \<Rightarrow> int \<Rightarrow> (int \<Rightarrow> cfloat)" where
  "fdct8_1d dst d0 src s0 dst_stridea dst_strideb src_stridea src_strideb =
     fst (fold (\<lambda>i (dst, d, s). (fdct8_line dst d src s dst_stridea src_stridea, d + dst_strideb, s + src_strideb))
               [0..<8] (dst, d0, s0))"

text \<open>One iteration of the loop of \<open>idct8_1d\<close>: the transform of the line at \<open>src + s\<close>,
  written to the line at \<open>dst + d\<close>.\<close>

definition idct8_line :: "(int \<Rightarrow> cfloat) \<Rightarrow> int \<Rightarrow> (int \<Rightarrow> cfloat) \<Rightarrow> int \<Rightarrow> int \<Rightarrow> int \<Rightarrow> bool \<Rightarrow> (int \<Rightarrow> cfloat)" where
  "idct8_line dst d src s dst_stridea src_stridea add =
     (let x00 = f_of_d (dlit 1.4142135623731 * d_of_f (src (s + 0 * src_stridea)));
          x01 = f_of_d (dlit 1.38703984532215 * d_of_f (src (s + 1 * src_stridea)) + dlit 0.275899379282943 * d_of_f (src (s + 7 * src_stridea)));
          x02 = f_of_d (dlit 1.30656296487638 * d_of_f (src (s + 2 * src_stridea)) + dlit 0.541196100146197 * d_of_f (src (s + 6 * src_stridea)));
          x03 = f_of_d (dlit 1.17587560241936 * d_of_f (src (s + 3 * src_stridea)) + dlit 0.785694958387102 * d_of_f (src (s + 5 * src_stridea)));
          x04 = f_of_d (dlit 1.4142135623731 * d_of_f (src (s + 4 * src_stridea)));
          x05 = f_of_d ((- dlit 0.785694958387102) * d_of_f (src (s + 3 * src_stridea)) + dlit 1.17587560241936 * d_of_f (src (s + 5 * src_stridea)));
          x06 = f_of_d (dlit 0.541196100146197 * d_of_f (src (s + 2 * src_stridea)) - dlit 1.30656296487638 * d_of_f (src (s + 6 * src_stridea)));
          x07 = f_of_d ((- dlit 0.275899379282943) * d_of_f (src (s + 1 * src_stridea)) + dlit 1.38703984532215 * d_of_f (src (s + 7 * src_stridea)));
          x09 = x00 + x04;
          x0a = x01 + x03;
          x0b = f_of_d (dlit 1.4142135623731 * d_of_f x02);
          x0c = x00 - x04;
          x0d = x01 - x03;
          x0e = f_of_d (dlit 0.353553390593274 * d_of_f (x09 - x0b));
          x0f = f_of_d (dlit 0.353553390593274 * d_of_f (x0c + x0d));
          x10 = f_of_d (dlit 0.353553390593274 * d_of_f (x0c - x0d));
          x11 = f_of_d (dlit 1.4142135623731 * d_of_f x06);
          x12 = x05 + x07;
          x13 = x05 - x07;
          x14 = f_of_d (dlit 0.353553390593274 * d_of_f (x11 + x12));
          x15 = f_of_d (dlit 0.353553390593274 * d_of_f (x11 - x12));
          x16 = f_of_d (dlit 0.5 * d_of_f x13);
          x08 = (- x15);
          dst = dst(d + 0 * dst_stridea := f_of_d (d_of_f (if add then dst (d + 0 * dst_stridea) else f_of_int 0) + dlit 0.25 * d_of_f (x09 + x0b) + dlit 0.353553390593274 * d_of_f x0a));
          dst = dst(d + 1 * dst_stridea := f_of_d (d_of_f (if add then dst (d + 1 * dst_stridea) else f_of_int 0) + dlit 0.707106781186547 * d_of_f (x0f - x08)));
          dst = dst(d + 2 * dst_stridea := f_of_d (d_of_f (if add then dst (d + 2 * dst_stridea) else f_of_int 0) + dlit 0.707106781186547 * d_of_f (x0f + x08)));
          dst = dst(d + 3 * dst_stridea := f_of_d (d_of_f (if add then dst (d + 3 * dst_stridea) else f_of_int 0) + dlit 0.707106781186547 * d_of_f (x0e + x16)));
          dst = dst(d + 4 * dst_stridea := f_of_d (d_of_f (if add then dst (d + 4 * dst_stridea) else f_of_int 0) + dlit 0.707106781186547 * d_of_f (x0e - x16)));
          dst = dst(d + 5 * dst_stridea := f_of_d (d_of_f (if add then dst (d + 5 * dst_stridea) else f_of_int 0) + dlit 0.707106781186547 * d_of_f (x10 - x14)));
          dst = dst(d + 6 * dst_stridea := f_of_d (d_of_f (if add then dst (d + 6 * dst_stridea) else f_of_int 0) + dlit 0.707106781186547 * d_of_f (x10 + x14)));
          dst = dst(d + 7 * dst_stridea := f_of_d (d_of_f (if add then dst (d + 7 * dst_stridea) else f_of_int 0) + dlit 0.25 * d_of_f (x09 + x0b) - dlit 0.353553390593274 * d_of_f x0a))
      in dst)"

definition idct8_1d :: "(int \<Rightarrow> cfloat) \<Rightarrow> int \<Rightarrow> (int \<Rightarrow> cfloat) \<Rightarrow> int \<Rightarrow> int \<Rightarrow> int \<Rightarrow> int \<Rightarrow> int \<Rightarrow> bool \<Rightarrow> (int \<Rightarrow> cfloat)" where
  "idct8_1d dst d0 src s0 dst_stridea dst_strideb src_stridea src_strideb add =
     fst (fold (\<lambda>i (dst, d, s). (idct8_line dst d src s dst_stridea src_stridea add, d + dst_strideb, s + src_strideb))
               [0..<8] (dst, d0, s0))"

text \<open>One iteration of the loop of \<open>fdct16_1d\<close>: the transform of the line at \<open>src + s\<close>,
  written to the line at \<open>dst + d\<close>.\<close>

definition fdct16_line :: "(int \<Rightarrow> cfloat) \<Rightarrow> int \<Rightarrow> (int \<Rightarrow> cfloat) \<Rightarrow> int \<Rightarrow> int \<Rightarrow> int \<Rightarrow> (int \<Rightarrow> cfloat)" where
  "fdct16_line dst d src s dst_stridea src_stridea =
     (let x00 = src (s + 0 * src_stridea) + src (s + 15 * src_stridea);
          x01 = src (s + 1 * src_stridea) + src (s + 14 * src_stridea);
          x02 = src (s + 2 * src_stridea) + src (s + 13 * src_stridea);
          x03 = src (s + 3 * src_stridea) + src (s + 12 * src_stridea);
          x04 = src (s + 4 * src_stridea) + src (s + 11 * src_stridea);
          x05 = src (s + 5 * src_stridea) + src (s + 10 * src_stridea);
          x06 = src (s + 6 * src_stridea) + src (s + 9 * src_stridea);
          x07 = src (s + 7 * src_stridea) + src (s + 8 * src_stridea);
          x08 = src (s + 0 * src_stridea) - src (s + 15 * src_stridea);
          x09 = src (s + 1 * src_stridea) - src (s + 14 * src_stridea);
          x0a = src (s + 2 * src_stridea) - src (s + 13 * src_stridea);
          x0b = src (s + 3 * src_stridea) - src (s + 12 * src_stridea);
          x0c = src (s + 4 * src_stridea) - src (s + 11 * src_stridea);
          x0d = src (s + 5 * src_stridea) - src (s + 10 * src_stridea);
          x0e = src (s + 6 * src_stridea) - src (s + 9 * src_stridea);
          x0f = src (s + 7 * src_stridea) - src (s + 8 * src_stridea);
          x10 = x00 + x07;
          x11 = x01 + x06;
          x12 = x02 + x05;
          x13 = x03 + x04;
          x14 = x00 - x07;
          x15 = x01 - x06;
          x16 = x02 - x05;
          x17 = x03 - x04;
          x18 = x10 + x13;
          x19 = x11 + x12;
          x1a = x10 - x13;
          x1b = x11 - x12;
          x1c = f_of_d (dlit 1.38703984532215 * d_of_f x14 + dlit 0.275899379282943 * d_of_f x17);
          x1d = f_of_d (dlit 1.17587560241936 * d_of_f x15 + dlit 0.785694958387102 * d_of_f x16);
          x1e = f_of_d ((- dlit 0.785694958387102) * d_of_f x15 + dlit 1.17587560241936 * d_of_f x16);
          x1f = f_of_d (dlit 0.275899379282943 * d_of_f x14 - dlit 1.38703984532215 * d_of_f x17);
          x20 = f_of_d (dlit 0.25 * d_of_f (x1c - x1d));
          x21 = f_of_d (dlit 0.25 * d_of_f (x1e - x1f));
          x22 = f_of_d (dlit 1.40740373752638 * d_of_f x08 + dlit 0.138617169199091 * d_of_f x0f);
          x23 = f_of_d (dlit 1.35331800117435 * d_of_f x09 + dlit 0.410524527522357 * d_of_f x0e);
          x24 = f_of_d (dlit 1.24722501298667 * d_of_f x0a + dlit 0.666655658477747 * d_of_f x0d);
          x25 = f_of_d (dlit 1.09320186700176 * d_of_f x0b + dlit 0.897167586342636 * d_of_f x0c);
          x26 = f_of_d ((- dlit 0.897167586342636) * d_of_f x0b + dlit 1.09320186700176 * d_of_f x0c);
          x27 = f_of_d (dlit 0.666655658477747 * d_of_f x0a - dlit 1.24722501298667 * d_of_f x0d);
          x28 = f_of_d ((- dlit 0.410524527522357) * d_of_f x09 + dlit 1.35331800117435 * d_of_f x0e);
          x29 = f_of_d (dlit 0.138617169199091 * d_of_f x08 - dlit 1.40740373752638 * d_of_f x0f);
          x2a = x22 + x25;
          x2b = x23 + x24;
          x2c = x22 - x25;
          x2d = x23 - x24;
          x2e = f_of_d (dlit 0.25 * d_of_f (x2a - x2b));
          x2f = f_of_d (dlit 0.326640741219094 * d_of_f x2c + dlit 0.135299025036549 * d_of_f x2d);
          x30 = f_of_d (dlit 0.135299025036549 * d_of_f x2c - dlit 0.326640741219094 * d_of_f x2d);
          x31 = x26 + x29;
          x32 = x27 + x28;
          x33 = x26 - x29;
          x34 = x27 - x28;
          x35 = f_of_d (dlit 0.25 * d_of_f (x31 - x32));
          x36 = f_of_d (dlit 0.326640741219094 * d_of_f x33 + dlit 0.135299025036549 * d_of_f x34);
          x37 = f_of_d (dlit 0.135299025036549 * d_of_f x33 - dlit 0.326640741219094 * d_of_f x34);
          dst = dst(d + 0 * dst_stridea := f_of_d (dlit 0.25 * d_of_f (x18 + x19)));
          dst = dst(d + 1 * dst_stridea := f_of_d (dlit 0.25 * d_of_f (x2a + x2b)));
          dst = dst(d + 2 * dst_stridea := f_of_d (dlit 0.25 * d_of_f (x1c + x1d)));
          dst = dst(d + 3 * dst_stridea := f_of_d (dlit 0.707106781186547 * d_of_f (x2f - x37)));
          dst = dst(d + 4 * dst_stridea := f_of_d (dlit 0.326640741219094 * d_of_f x1a + dlit 0.135299025036549 * d_of_f x1b));
          dst = dst(d + 5 * dst_stridea := f_of_d (dlit 0.707106781186547 * d_of_f (x2f + x37)));
          dst = dst(d + 6 * dst_stridea := f_of_d (dlit 0.707106781186547 * d_of_f (x20 - x21)));
          dst = dst(d + 7 * dst_stridea := f_of_d (dlit 0.707106781186547 * d_of_f (x2e + x35)));
          dst = dst(d + 8 * dst_stridea := f_of_d (dlit 0.25 * d_of_f (x18 - x19)));
          dst = dst(d + 9 * dst_stridea := f_of_d (dlit 0.707106781186547 * d_of_f (x2e - x35)));
          dst = dst(d + 10 * dst_stridea := f_of_d (dlit 0.707106781186547 * d_of_f (x20 + x21)));
          dst = dst(d + 11 * dst_stridea := f_of_d (dlit 0.707106781186547 * d_of_f (x30 - x36)));
          dst = dst(d + 12 * dst_stridea := f_of_d (dlit 0.135299025036549 * d_of_f x1a - dlit 0.326640741219094 * d_of_f x1b));
          dst = dst(d + 13 * dst_stridea := f_of_d (dlit 0.707106781186547 * d_of_f (x30 + x36)));
          dst = dst(d + 14 * dst_stridea := f_of_d (dlit 0.25 * d_of_f (x1e + x1f)));
          dst = dst(d + 15 * dst_stridea := f_of_d (dlit 0.25 * d_of_f (x31 + x32)))
      in dst)"

definition fdct16_1d :: "(int \<Rightarrow> cfloat) \<Rightarrow> int \<Rightarrow> (int \<Rightarrow> cfloat) \<Rightarrow> int \<Rightarrow> int \<Rightarrow> int \<Rightarrow> int \<Rightarrow> int \<Rightarrow> (int \<Rightarrow> cfloat)" where
  "fdct16_1d dst d0 src s0 dst_stridea dst_strideb src_stridea src_strideb =
     fst (fold (\<lambda>i (dst, d, s). (fdct16_line dst d src s dst_stridea src_stridea, d + dst_strideb, s + src_strideb))
               [0..<16] (dst, d0, s0))"

text \<open>One iteration of the loop of \<open>idct16_1d\<close>: the transform of the line at \<open>src + s\<close>,
  written to the line at \<open>dst + d\<close>.\<close>

definition idct16_line :: "(int \<Rightarrow> cfloat) \<Rightarrow> int \<Rightarrow> (int \<Rightarrow> cfloat) \<Rightarrow> int \<Rightarrow> int \<Rightarrow> int \<Rightarrow> bool \<Rightarrow> (int \<Rightarrow> cfloat)" where
  "idct16_line dst d src s dst_stridea src_stridea add =
     (let x00 = f_of_d (dlit 1.4142135623731 * d_of_f (src (s + 0 * src_stridea)));
          x01 = f_of_d (dlit 1.40740373752638 * d_of_f (src (s + 1 * src_stridea)) + dlit 0.138617169199091 * d_of_f (src (s + 15 * src_stridea)));
          x02 = f_of_d (dlit 1.38703984532215 * d_of_f (src (s + 2 * src_stridea)) + dlit 0.275899379282943 * d_of_f (src (s + 14 * src_stridea)));
          x03 = f_of_d (dlit 1.35331800117435 * d_of_f (src (s + 3 * src_stridea)) + dlit 0.410524527522357 * d_of_f (src (s + 13 * src_stridea)));
          x04 = f_of_d (dlit 1.30656296487638 * d_of_f (src (s + 4 * src_stridea)) + dlit 0.541196100146197 * d_of_f (src (s + 12 * src_stridea)));
          x05 = f_of_d (dlit 1.24722501298667 * d_of_f (src (s + 5 * src_stridea)) + dlit 0.666655658477747 * d_of_f (src (s + 11 * src_stridea)));
          x06 = f_of_d (dlit 1.17587560241936 * d_of_f (src (s + 6 * src_stridea)) + dlit 0.785694958387102 * d_of_f (src (s + 10 * src_stridea)));
          x07 = f_of_d (dlit 1.09320186700176 * d_of_f (src (s + 7 * src_stridea)) + dlit 0.897167586342636 * d_of_f (src (s + 9 * src_stridea)));
          x08 = f_of_d (dlit 1.4142135623731 * d_of_f (src (s + 8 * src_stridea)));
          x09 = f_of_d ((- dlit 0.897167586342636) * d_of_f (src (s + 7 * src_stridea)) + dlit 1.09320186700176 * d_of_f (src (s + 9 * src_stridea)));
          x0a = f_of_d (dlit 0.785694958387102 * d_of_f (src (s + 6 * src_stridea)) - dlit 1.17587560241936 * d_of_f (src (s + 10 * src_stridea)));
          x0b = f_of_d ((- dlit 0.666655658477747) * d_of_f (src (s + 5 * src_stridea)) + dlit 1.24722501298667 * d_of_f (src (s + 11 * src_stridea)));
          x0c = f_of_d (dlit 0.541196100146197 * d_of_f (src (s + 4 * src_stridea)) - dlit 1.30656296487638 * d_of_f (src (s + 12 * src_stridea)));
          x0d = f_of_d ((- dlit 0.410524527522357) * d_of_f (src (s + 3 * src_stridea)) + dlit 1.35331800117435 * d_of_f (src (s + 13 * src_stridea)));
          x0e = f_of_d (dlit 0.275899379282943 * d_of_f (src (s + 2 * src_stridea)) - dlit 1.38703984532215 * d_of_f (src (s + 14 * src_stridea)));
          x0f = f_of_d ((- dlit 0.138617169199091) * d_of_f (src (s + 1 * src_stridea)) + dlit 1.40740373752638 * d_of_f (src (s + 15 * src_stridea)));
          x12 = x00 + x08;
          x13 = x01 + x07;
          x14 = x02 + x06;
          x15 = x03 + x05;
          x16 = f_of_d (dlit 1.4142135623731 * d_of_f x04);
          x17 = x00 - x08;
          x18 = x01 - x07;
          x19 = x02 - x06;
          x1a = x03 - x05;
          x1d = x12 + x16;
          x1e = x13 + x15;
          x1f = f_of_d (dlit 1.4142135623731 * d_of_f x14);
          x20 = x12 - x16;
          x21 = x13 - x15;
          x22 = f_of_d (dlit 0.25 * d_of_f (x1d - x1f));
          x23 = f_of_d (dlit 0.25 * d_of_f (x20 + x21));
          x24 = f_of_d (dlit 0.25 * d_of_f (x20 - x21));
          x25 = f_of_d (dlit 1.4142135623731 * d_of_f x17);
          x26 = f_of_d (dlit 1.30656296487638 * d_of_f x18 + dlit 0.541196100146197 * d_of_f x1a);
          x27 = f_of_d (dlit 1.4142135623731 * d_of_f x19);
          x28 = f_of_d ((- dlit 0.541196100146197) * d_of_f x18 + dlit 1.30656296487638 * d_of_f x1a);
          x29 = f_of_d (dlit 0.176776695296637 * d_of_f (x25 + x27) + dlit 0.25 * d_of_f x26);
          x2a = f_of_d (dlit 0.25 * d_of_f (x25 - x27));
          x2b = f_of_d (dlit 0.176776695296637 * d_of_f (x25 + x27) - dlit 0.25 * d_of_f x26);
          x2c = f_of_d (dlit 0.353553390593274 * d_of_f x28);
          x1b = f_of_d (dlit 0.707106781186547 * d_of_f (x2a - x2c));
          x1c = f_of_d (dlit 0.707106781186547 * d_of_f (x2a + x2c));
          x2d = f_of_d (dlit 1.4142135623731 * d_of_f x0c);
          x2e = x0b + x0d;
          x2f = x0a + x0e;
          x30 = x09 + x0f;
          x31 = x09 - x0f;
          x32 = x0a - x0e;
          x33 = x0b - x0d;
          x37 = f_of_d (dlit 1.4142135623731 * d_of_f x2d);
          x38 = f_of_d (dlit 1.30656296487638 * d_of_f x2e + dlit 0.541196100146197 * d_of_f x30);
          x39 = f_of_d (dlit 1.4142135623731 * d_of_f x2f);
          x3a = f_of_d ((- dlit 0.541196100146197) * d_of_f x2e + dlit 1.30656296487638 * d_of_f x30);
          x3b = f_of_d (dlit 0.176776695296637 * d_of_f (x37 + x39) + dlit 0.25 * d_of_f x38);
          x3c = f_of_d (dlit 0.25 * d_of_f (x37 - x39));
          x3d = f_of_d (dlit 0.176776695296637 * d_of_f (x37 + x39) - dlit 0.25 * d_of_f x38);
          x3e = f_of_d (dlit 0.353553390593274 * d_of_f x3a);
          x34 = f_of_d (dlit 0.707106781186547 * d_of_f (x3c - x3e));
          x35 = f_of_d (dlit 0.707106781186547 * d_of_f (x3c + x3e));
          x3f = f_of_d (dlit 1.4142135623731 * d_of_f x32);
          x40 = x31 + x33;
          x41 = x31 - x33;
          x42 = f_of_d (dlit 0.25 * d_of_f (x3f + x40));
          x43 = f_of_d (dlit 0.25 * d_of_f (x3f - x40));
          x44 = f_of_d (dlit 0.353553390593274 * d_of_f x41);
          x36 = (- x43);
          x10 = (- x34);
          x11 = (- x3d);
          dst = dst(d + 0 * dst_stridea := f_of_d (d_of_f (if add then dst (d + 0 * dst_stridea) else f_of_int 0) + dlit 0.176776695296637 * d_of_f (x1d + x1f) + dlit 0.25 * d_of_f x1e));
          dst = dst(d + 1 * dst_stridea := f_of_d (d_of_f (if add then dst (d + 1 * dst_stridea) else f_of_int 0) + dlit 0.707106781186547 * d_of_f (x29 - x11)));
          dst = dst(d + 2 * dst_stridea := f_of_d (d_of_f (if add then dst (d + 2 * dst_stridea) else f_of_int 0) + dlit 0.707106781186547 * d_of_f (x29 + x11)));
          dst = dst(d + 3 * dst_stridea := f_of_d (d_of_f (if add then dst (d + 3 * dst_stridea) else f_of_int 0) + dlit 0.707106781186547 * d_of_f (x23 + x36)));
          dst = dst(d + 4 * dst_stridea := f_of_d (d_of_f (if add then dst (d + 4 * dst_stridea) else f_of_int 0) + dlit 0.707106781186547 * d_of_f (x23 - x36)));
          dst = dst(d + 5 * dst_stridea := f_of_d (d_of_f (if add then dst (d + 5 * dst_stridea) else f_of_int 0) + dlit 0.707106781186547 * d_of_f (x1b - x35)));
          dst = dst(d + 6 * dst_stridea := f_of_d (d_of_f (if add then dst (d + 6 * dst_stridea) else f_of_int 0) + dlit 0.707106781186547 * d_of_f (x1b + x35)));
          dst = dst(d + 7 * dst_stridea := f_of_d (d_of_f (if add then dst (d + 7 * dst_stridea) else f_of_int 0) + dlit 0.707106781186547 * d_of_f (x22 + x44)));
          dst = dst(d + 8 * dst_stridea := f_of_d (d_of_f (if add then dst (d + 8 * dst_stridea) else f_of_int 0) + dlit 0.707106781186547 * d_of_f (x22 - x44)));
          dst = dst(d + 9 * dst_stridea := f_of_d (d_of_f (if add then dst (d + 9 * dst_stridea) else f_of_int 0) + dlit 0.707106781186547 * d_of_f (x1c - x10)));
          dst = dst(d + 10 * dst_stridea := f_of_d (d_of_f (if add then dst (d + 10 * dst_stridea) else f_of_int 0) + dlit 0.707106781186547 * d_of_f (x1c + x10)));
          dst = dst(d + 11 * dst_stridea := f_of_d (d_of_f (if add then dst (d + 11 * dst_stridea) else f_of_int 0) + dlit 0.707106781186547 * d_of_f (x24 + x42)));
          dst = dst(d + 12 * dst_stridea := f_of_d (d_of_f (if add then dst (d + 12 * dst_stridea) else f_of_int 0) + dlit 0.707106781186547 * d_of_f (x24 - x42)));
          dst = dst(d + 13 * dst_stridea := f_of_d (d_of_f (if add then dst (d + 13 * dst_stridea) else f_of_int 0) + dlit 0.707106781186547 * d_of_f (x2b - x3b)));
          dst = dst(d + 14 * dst_stridea := f_of_d (d_of_f (if add then dst (d + 14 * dst_stridea) else f_of_int 0) + dlit 0.707106781186547 * d_of_f (x2b + x3b)));
          dst = dst(d + 15 * dst_stridea := f_of_d (d_of_f (if add then dst (d + 15 * dst_stridea) else f_of_int 0) + dlit 0.176776695296637 * d_of_f (x1d + x1f) - dlit 0.25 * d_of_f x1e))
      in dst)"

definition idct16_1d :: "(int \<Rightarrow> cfloat) \<Rightarrow> int \<Rightarrow> (int \<Rightarrow> cfloat) \<Rightarrow> int \<Rightarrow> int \<Rightarrow> int \<Rightarrow> int \<Rightarrow> int \<Rightarrow> bool \<Rightarrow> (int \<Rightarrow> cfloat)" where
  "idct16_1d dst d0 src s0 dst_stridea dst_strideb src_stridea src_strideb add =
     fst (fold (\<lambda>i (dst, d, s). (idct16_line dst d src s dst_stridea src_stridea add, d + dst_strideb, s + src_strideb))
               [0..<16] (dst, d0, s0))"

subsection \<open>The frequency filter of one block\<close>

text \<open>Conversion of a float to \<open>int\<close> discards the fraction; it is undefined (\<open>None\<close>) for a
  non-finite value and for a value outside the range of \<open>int\<close>.\<close>

definition c_trunc :: "rat \<Rightarrow> int" where
  "c_trunc x = (if 0 \<le> x then \<lfloor>x\<rfloor> else \<lceil>x\<rceil>)"

definition int_of_cfloat :: "cfloat \<Rightarrow> int option" where
  "int_of_cfloat a =
     (case a of
        Fin x \<Rightarrow> (let i = c_trunc x in if - (2 ^ 31) \<le> i \<and> i < 2 ^ 31 then Some i else None)
      | NonFinite \<Rightarrow> None)"

text \<open>
  The body of the coefficient loop of \<open>filter_freq_<bsize>\<close>. With an expression the
  coefficient is multiplied by the value of the expression at its magnitude (the slot
  \<open>var_values[VAR_C]\<close> is written immediately before the evaluation and read nowhere else);
  otherwise it is zeroed when its magnitude is below the \<open>int\<close> parameter \<open>sigma_th\<close>.
\<close>

definition filter_freq_coeff :: "AVExpr option \<Rightarrow> int \<Rightarrow> cfloat \<Rightarrow> cfloat" where
  "filter_freq_coeff ex sigma_th b =
     (case ex of
        Some e \<Rightarrow> f_of_d (d_of_f b * e (d_of_f (FFABS b)))
      | None \<Rightarrow> if flt (FFABS b) (f_of_int sigma_th) then f_of_int 0 else b)"

text \<open>
  \<open>filter_freq_8\<close> and \<open>filter_freq_16\<close> (the macro \<open>DEF_FILTER_FREQ_FUNCS\<close>). The two
  temporary blocks are uninitialised arrays of which every cell is written before it is
  read; they start as zero here.
\<close>

definition filter_freq_8 ::
  "(int \<Rightarrow> cfloat) \<Rightarrow> int \<Rightarrow> int \<Rightarrow> (int \<Rightarrow> cfloat) \<Rightarrow> int \<Rightarrow> int \<Rightarrow> AVExpr option \<Rightarrow> int \<Rightarrow> (int \<Rightarrow> cfloat)" where
  "filter_freq_8 src s src_linesize dst d dst_linesize ex sigma_th =
     (let tmp_block1 = fdct8_1d (\<lambda>_. Fin 0) 0 src s 1 8 1 src_linesize;
          tmp_block2 = fdct8_1d (\<lambda>_. Fin 0) 0 tmp_block1 0 8 1 8 1;
          tmp_block2 = fold (\<lambda>i b. b(int i := filter_freq_coeff ex sigma_th (b (int i)))) [0..<8 * 8] tmp_block2;
          tmp_block1 = idct8_1d tmp_block1 0 tmp_block2 0 1 8 1 8 False
      in idct8_1d dst d tmp_block1 0 dst_linesize 1 8 1 True)"

definition filter_freq_16 ::
  "(int \<Rightarrow> cfloat) \<Rightarrow> int \<Rightarrow> int \<Rightarrow> (int \<Rightarrow> cfloat) \<Rightarrow> int \<Rightarrow> int \<Rightarrow> AVExpr option \<Rightarrow> int \<Rightarrow> (int \<Rightarrow> cfloat)" where
  "filter_freq_16 src s src_linesize dst d dst_linesize ex sigma_th =
     (let tmp_block1 = fdct16_1d (\<lambda>_. Fin 0) 0 src s 1 16 1 src_linesize;
          tmp_block2 = fdct16_1d (\<lambda>_. Fin 0) 0 tmp_block1 0 16 1 16 1;
          tmp_block2 = fold (\<lambda>i b. b(int i := filter_freq_coeff ex sigma_th (b (int i)))) [0..<16 * 16] tmp_block2;
          tmp_block1 = idct16_1d tmp_block1 0 tmp_block2 0 1 16 1 16 False
      in idct16_1d dst d tmp_block1 0 dst_linesize 1 16 1 True)"

text \<open>
  A block function takes the source plane, the offset of the block in it and its line
  size, and the destination plane, offset and line size, and returns the destination.
\<close>

type_synonym block_func =
  "(int \<Rightarrow> cfloat) \<Rightarrow> int \<Rightarrow> int \<Rightarrow> (int \<Rightarrow> cfloat) \<Rightarrow> int \<Rightarrow> int \<Rightarrow> (int \<Rightarrow> cfloat)"

text \<open>
  The four targets of \<open>filter_freq_func\<close>. The sigma variants pass the float \<open>s->th\<close> for
  the \<open>int\<close> parameter \<open>sigma_th\<close>: the conversion is the same at every call and is made
  once here, \<open>None\<close> when it is undefined. The expression variants pass 0.
\<close>

definition filter_freq_sigma_8 :: "DCTdnoizContext \<Rightarrow> block_func option" where
  "filter_freq_sigma_8 s =
     map_option (\<lambda>sigma_th src so sl dst doff dl. filter_freq_8 src so sl dst doff dl None sigma_th)
       (int_of_cfloat (th s))"

definition filter_freq_expr_8 :: "DCTdnoizContext \<Rightarrow> block_func option" where
  "filter_freq_expr_8 s = Some (\<lambda>src so sl dst doff dl. filter_freq_8 src so sl dst doff dl (expr s) 0)"

definition filter_freq_sigma_16 :: "DCTdnoizContext \<Rightarrow> block_func option" where
  "filter_freq_sigma_16 s =
     map_option (\<lambda>sigma_th src so sl dst doff dl. filter_freq_16 src so sl dst doff dl None sigma_th)
       (int_of_cfloat (th s))"

definition filter_freq_expr_16 :: "DCTdnoizContext \<Rightarrow> block_func option" where
  "filter_freq_expr_16 s = Some (\<lambda>src so sl dst doff dl. filter_freq_16 src so sl dst doff dl (expr s) 0)"

definition call_filter_freq_func :: "freq_func \<Rightarrow> DCTdnoizContext \<Rightarrow> block_func option" where
  "call_filter_freq_func ff s =
     (case ff of
        Filter_freq_sigma_8 \<Rightarrow> filter_freq_sigma_8 s
      | Filter_freq_sigma_16 \<Rightarrow> filter_freq_sigma_16 s
      | Filter_freq_expr_8 \<Rightarrow> filter_freq_expr_8 s
      | Filter_freq_expr_16 \<Rightarrow> filter_freq_expr_16 s)"

subsection \<open>Colour decorrelation and correlation\<close>

definition DCT3X3_0_0 :: cfloat where "DCT3X3_0_0 = flit 0.5773502691896258"
definition DCT3X3_0_1 :: cfloat where "DCT3X3_0_1 = flit 0.5773502691896258"
definition DCT3X3_0_2 :: cfloat where "DCT3X3_0_2 = flit 0.5773502691896258"
definition DCT3X3_1_0 :: cfloat where "DCT3X3_1_0 = flit 0.7071067811865475"
definition DCT3X3_1_2 :: cfloat where "DCT3X3_1_2 = - flit 0.7071067811865475"
definition DCT3X3_2_0 :: cfloat where "DCT3X3_2_0 = flit 0.4082482904638631"
definition DCT3X3_2_1 :: cfloat where "DCT3X3_2_1 = - flit 0.8164965809277261"
definition DCT3X3_2_2 :: cfloat where "DCT3X3_2_2 = flit 0.4082482904638631"

type_synonym planes = "(int \<Rightarrow> cfloat) \<times> (int \<Rightarrow> cfloat) \<times> (int \<Rightarrow> cfloat)"

text \<open>The three floats of one pixel; the bytes are promoted to \<open>int\<close> and converted.\<close>

definition decorrelate_pixel :: "8 word \<Rightarrow> 8 word \<Rightarrow> 8 word \<Rightarrow> cfloat \<times> cfloat \<times> cfloat" where
  "decorrelate_pixel pr pg pb =
     (f_of_int (uint pr) * DCT3X3_0_0 + f_of_int (uint pg) * DCT3X3_0_1 + f_of_int (uint pb) * DCT3X3_0_2,
      f_of_int (uint pr) * DCT3X3_1_0 + f_of_int (uint pb) * DCT3X3_1_2,
      f_of_int (uint pr) * DCT3X3_2_0 + f_of_int (uint pg) * DCT3X3_2_1 + f_of_int (uint pb) * DCT3X3_2_2)"

definition color_decorrelation ::
  "planes \<Rightarrow> int \<Rightarrow> (int \<Rightarrow> 8 word) \<Rightarrow> int \<Rightarrow> int \<Rightarrow> int \<Rightarrow> int \<Rightarrow> int \<Rightarrow> int \<Rightarrow> planes" where
  "color_decorrelation dst dst_linesize src src_linesize w h r g b =
     fold (\<lambda>y dst.
             fold (\<lambda>x (dstp_r, dstp_g, dstp_b).
                     let srcp = y * src_linesize + 3 * x;
                         (vr, vg, vb) = decorrelate_pixel (src (srcp + r)) (src (srcp + g)) (src (srcp + b))
                     in (dstp_r(y * dst_linesize + x := vr),
                         dstp_g(y * dst_linesize + x := vg),
                         dstp_b(y * dst_linesize + x := vb)))
                  [0..w - 1] dst)
          [0..h - 1] dst"

text \<open>Modelled from the spec: \<open>av_clip_uint8\<close> of libavutil is not part of the sources here;
  it clamps its \<open>int\<close> argument to the valid 8-bit pixel range.\<close>

definition av_clip_uint8 :: "int \<Rightarrow> 8 word" where
  "av_clip_uint8 a = word_of_int (max 0 (min 255 a))"

text \<open>The float is converted to the \<open>int\<close> argument by truncation; no rounding is applied.\<close>

definition clip_float :: "cfloat \<Rightarrow> 8 word option" where
  "clip_float a = map_option av_clip_uint8 (int_of_cfloat a)"

definition correlate_pixel :: "cfloat \<Rightarrow> cfloat \<Rightarrow> cfloat \<Rightarrow> (8 word \<times> 8 word \<times> 8 word) option" where
  "correlate_pixel sr sg sb =
     (case clip_float (sr * DCT3X3_0_0 + sg * DCT3X3_1_0 + sb * DCT3X3_2_0) of
        None \<Rightarrow> None
      | Some vr \<Rightarrow>
          (case clip_float (sr * DCT3X3_0_1 + sb * DCT3X3_2_1) of
             None \<Rightarrow> None
           | Some vg \<Rightarrow>
               (case clip_float (sr * DCT3X3_0_2 + sg * DCT3X3_1_2 + sb * DCT3X3_2_2) of
                  None \<Rightarrow> None
                | Some vb \<Rightarrow> Some (vr, vg, vb))))"

definition color_correlation ::
  "(int \<Rightarrow> 8 word) \<Rightarrow> int \<Rightarrow> planes \<Rightarrow> int \<Rightarrow> int \<Rightarrow> int \<Rightarrow> int \<Rightarrow> int \<Rightarrow> int \<Rightarrow> status + (int \<Rightarrow> 8 word)" where
  "color_correlation dst dst_linesize src src_linesize w h r g b =
     fold (\<lambda>y acc.
             fold (\<lambda>x acc.
                     case acc of
                       Inl e \<Rightarrow> Inl e
                     | Inr dst \<Rightarrow>
                         (let dstp = y * dst_linesize + 3 * x;
                              (src_r, src_g, src_b) = src
                          in case correlate_pixel (src_r (y * src_linesize + x)) (src_g (y * src_linesize + x))
                                    (src_b (y * src_linesize + x)) of
                               None \<Rightarrow> Inl Undefined
                             | Some (vr, vg, vb) \<Rightarrow> Inr (dst(dstp + r := vr, dstp + g := vg, dstp + b := vb))))
                  [0..w - 1] acc)
          [0..h - 1] (Inr dst)"

text \<open>\<open>DECLARE_COLOR_FUNCS(rgb, 0, 1, 2)\<close> and \<open>DECLARE_COLOR_FUNCS(bgr, 2, 1, 0)\<close>.\<close>

definition color_decorrelation_rgb :: "planes \<Rightarrow> int \<Rightarrow> (int \<Rightarrow> 8 word) \<Rightarrow> int \<Rightarrow> int \<Rightarrow> int \<Rightarrow> planes" where
  "color_decorrelation_rgb dst dst_linesize src src_linesize w h =
     color_decorrelation dst dst_linesize src src_linesize w h 0 1 2"

definition color_correlation_rgb ::
  "(int \<Rightarrow> 8 word) \<Rightarrow> int \<Rightarrow> planes \<Rightarrow> int \<Rightarrow> int \<Rightarrow> int \<Rightarrow> status + (int \<Rightarrow> 8 word)" where
  "color_correlation_rgb dst dst_linesize src src_linesize w h =
     color_correlation dst dst_linesize src src_linesize w h 0 1 2"

definition color_decorrelation_bgr :: "planes \<Rightarrow> int \<Rightarrow> (int \<Rightarrow> 8 word) \<Rightarrow> int \<Rightarrow> int \<Rightarrow> int \<Rightarrow> planes" where
  "color_decorrelation_bgr dst dst_linesize src src_linesize w h =
     color_decorrelation dst dst_linesize src src_linesize w h 2 1 0"

definition color_correlation_bgr ::
  "(int \<Rightarrow> 8 word) \<Rightarrow> int \<Rightarrow> planes \<Rightarrow> int \<Rightarrow> int \<Rightarrow> int \<Rightarrow> status + (int \<Rightarrow> 8 word)" where
  "color_correlation_bgr dst dst_linesize src src_linesize w h =
     color_correlation dst dst_linesize src src_linesize w h 2 1 0"

definition call_color_decorrelation ::
  "color_func \<Rightarrow> planes \<Rightarrow> int \<Rightarrow> (int \<Rightarrow> 8 word) \<Rightarrow> int \<Rightarrow> int \<Rightarrow> int \<Rightarrow> planes" where
  "call_color_decorrelation cf =
     (case cf of Color_rgb \<Rightarrow> color_decorrelation_rgb | Color_bgr \<Rightarrow> color_decorrelation_bgr)"

definition call_color_correlation ::
  "color_func \<Rightarrow> (int \<Rightarrow> 8 word) \<Rightarrow> int \<Rightarrow> planes \<Rightarrow> int \<Rightarrow> int \<Rightarrow> int \<Rightarrow> status + (int \<Rightarrow> 8 word)" where
  "call_color_correlation cf =
     (case cf of Color_rgb \<Rightarrow> color_correlation_rgb | Color_bgr \<Rightarrow> color_correlation_bgr)"

subsection \<open>filter_plane\<close>

text \<open>
  The sweep over the block positions (\<open>// block dct sums\<close>): \<open>g\<close> is called with the offsets
  \<open>src + x\<close> and \<open>dst + x\<close>, the two pointers advancing by \<open>step\<close> lines after each row of
  blocks.
\<close>

definition block_sweep ::
  "(int \<Rightarrow> int \<Rightarrow> 'a \<Rightarrow> 'a) \<Rightarrow> int \<Rightarrow> int \<Rightarrow> int \<Rightarrow> int \<Rightarrow> int \<Rightarrow> int \<Rightarrow> 'a \<Rightarrow> 'a option" where
  "block_sweep g bs stp src_linesize dst_linesize w h acc =
     map_option fst
       (for_step 0 (h - bs + 1) stp
          (\<lambda>y (acc, soff, doff).
             Option.bind (for_step 0 (w - bs + 1) stp (\<lambda>x acc. Some (g (soff + x) (doff + x) acc)) acc)
               (\<lambda>acc. Some (acc, soff + stp * src_linesize, doff + stp * dst_linesize)))
          (acc, 0, 0))"

text \<open>\<open>memset(dst, 0, n * sizeof(*dst))\<close>.\<close>

definition memset_zero :: "(int \<Rightarrow> cfloat) \<Rightarrow> int \<Rightarrow> (int \<Rightarrow> cfloat)" where
  "memset_zero dst len = (\<lambda>i. if 0 \<le> i \<and> i < len then Fin 0 else dst i)"

text \<open>\<open>// average blocks\<close>: every cell of the plane is multiplied by its weight.\<close>

definition average_blocks :: "(int \<Rightarrow> cfloat) \<Rightarrow> (int \<Rightarrow> cfloat) \<Rightarrow> int \<Rightarrow> int \<Rightarrow> int \<Rightarrow> (int \<Rightarrow> cfloat)" where
  "average_blocks dst ws dst_linesize w h =
     fold (\<lambda>y dst. fold (\<lambda>x dst. dst(y * dst_linesize + x := dst (y * dst_linesize + x) * ws (y * dst_linesize + x)))
                         [0..w - 1] dst)
          [0..h - 1] dst"

definition filter_plane ::
  "block_func \<Rightarrow> DCTdnoizContext \<Rightarrow> (int \<Rightarrow> cfloat) \<Rightarrow> int \<Rightarrow> (int \<Rightarrow> cfloat) \<Rightarrow> int \<Rightarrow> int \<Rightarrow> int
     \<Rightarrow> (int \<Rightarrow> cfloat) option" where
  "filter_plane filter_freq s dst dst_linesize src src_linesize w h =
     Option.bind
       (block_sweep (\<lambda>soff doff dst. filter_freq src soff src_linesize dst doff dst_linesize)
          (bsize s) (step s) src_linesize dst_linesize w h (memset_zero dst (h * dst_linesize)))
       (\<lambda>dst. Some (average_blocks dst (weights s) dst_linesize w h))"

subsection \<open>filter_frame\<close>

record AVFrame =
  data :: "int \<Rightarrow> 8 word"
  linesize :: int

text \<open>\<open>memcpy(dst + d, src + s, len)\<close>; the length is a \<open>size_t\<close>, and a negative \<open>int\<close> passed
  for it is undefined.\<close>

definition memcpy :: "(int \<Rightarrow> 8 word) \<Rightarrow> int \<Rightarrow> (int \<Rightarrow> 8 word) \<Rightarrow> int \<Rightarrow> int \<Rightarrow> status + (int \<Rightarrow> 8 word)" where
  "memcpy dst d src s len =
     (if len < 0 then Inl Undefined
      else Inr (\<lambda>i. if d \<le> i \<and> i < d + len then src (s + (i - d)) else dst i))"

text \<open>The copy of the columns right of and the lines below the processed region, made when
  the output is a new frame.\<close>

definition copy_padding ::
  "DCTdnoizContext \<Rightarrow> int \<Rightarrow> int \<Rightarrow> (int \<Rightarrow> 8 word) \<Rightarrow> int \<Rightarrow> (int \<Rightarrow> 8 word) \<Rightarrow> int \<Rightarrow> status + (int \<Rightarrow> 8 word)" where
  "copy_padding s inlink_w inlink_h dst dst_linesize src src_linesize =
     (let hpad = (inlink_w - pr_width s) * 3;
          vpad = inlink_h - pr_height s;
          r1 = (if hpad \<noteq> 0
                then fold (\<lambda>y acc. case acc of Inl e \<Rightarrow> Inl e
                                    | Inr dst \<Rightarrow> memcpy dst (pr_width s * 3 + y * dst_linesize)
                                                   src (pr_width s * 3 + y * src_linesize) hpad)
                          [0..pr_height s - 1] (Inr dst)
                else Inr dst)
      in if vpad \<noteq> 0
         then fold (\<lambda>y acc. case acc of Inl e \<Rightarrow> Inl e
                             | Inr dst \<Rightarrow> memcpy dst (pr_height s * dst_linesize + y * dst_linesize)
                                            src (pr_height s * src_linesize + y * src_linesize) (inlink_w * 3))
                   [0..vpad - 1] r1
         else r1)"

text \<open>
  \<open>filter_frame\<close>. \<open>writable\<close> is the answer of \<open>av_frame_is_writable\<close>, \<open>new_buffer\<close> the
  frame that \<open>ff_get_video_buffer\<close> returns (\<open>None\<close> for \<open>NULL\<close>), \<open>fresh\<close> the content of the
  colour buffers before the frame, and \<open>ff_filter_frame\<close> the return value of the
  downstream filter. The result is the status and the frame handed downstream. The filter
  runs after \<open>init\<close> and \<open>config_input\<close> have installed the function pointers; a call through
  a \<open>NULL\<close> pointer is undefined.
\<close>

definition filter_frame ::
  "DCTdnoizContext \<Rightarrow> int \<Rightarrow> int \<Rightarrow> bool \<Rightarrow> AVFrame option \<Rightarrow> (int \<Rightarrow> cfloat) \<Rightarrow> (AVFrame \<Rightarrow> int) \<Rightarrow> AVFrame
     \<Rightarrow> (status \<times> AVFrame option) option" where
  "filter_frame s inlink_w inlink_h writable new_buffer fresh ff_filter_frame inp =
     (case (if writable then Some (True, inp) else map_option (Pair False) new_buffer) of
        None \<Rightarrow> Some (Returned (AVERROR ENOMEM), None)
      | Some (direct, out) \<Rightarrow>
          (case (color_decorrelation_func s, filter_freq_func s, color_correlation_func s) of
             (Some cd, Some ff, Some cc) \<Rightarrow>
               (case call_filter_freq_func ff s of
                  None \<Rightarrow> Some (Undefined, None)
                | Some filter_freq \<Rightarrow>
                    (let (c0, c1, c2) = call_color_decorrelation cd (fresh, fresh, fresh) (p_linesize s)
                                          (data inp) (linesize inp) (pr_width s) (pr_height s)
                     in Option.bind (filter_plane filter_freq s fresh (p_linesize s) c0 (p_linesize s)
                                       (pr_width s) (pr_height s)) (\<lambda>d0.
                        Option.bind (filter_plane filter_freq s fresh (p_linesize s) c1 (p_linesize s)
                                       (pr_width s) (pr_height s)) (\<lambda>d1.
                        Option.bind (filter_plane filter_freq s fresh (p_linesize s) c2 (p_linesize s)
                                       (pr_width s) (pr_height s)) (\<lambda>d2.
                          case call_color_correlation cc (data out) (linesize out) (d0, d1, d2) (p_linesize s)
                                 (pr_width s) (pr_height s) of
                            Inl e \<Rightarrow> Some (e, None)
                          | Inr dst \<Rightarrow>
                              if direct
                              then Some (Returned (ff_filter_frame (out\<lparr>data := dst\<rparr>)), Some (out\<lparr>data := dst\<rparr>))
                              else (case copy_padding s inlink_w inlink_h dst (linesize out)
                                           (data inp) (linesize inp) of
                                      Inl e \<Rightarrow> Some (e, None)
                                    | Inr dst \<Rightarrow>
                                        Some (Returned (ff_filter_frame (out\<lparr>data := dst\<rparr>)),
                                              Some (out\<lparr>data := dst\<rparr>))))))))
           | _ \<Rightarrow> Some (Undefined, None)))"

subsection \<open>Block positions and footprints\<close>

text \<open>The values of the loop variable of \<open>for (y = y0; y < ylim; y += stp)\<close> for a positive
  step.\<close>

function steps :: "int \<Rightarrow> int \<Rightarrow> int \<Rightarrow> int list" where
  "steps y ylim stp = (if y < ylim \<and> 0 < stp then y # steps (y + stp) ylim stp else [])"
  by pat_completeness auto
termination
  by (relation "measure (\<lambda>(y, ylim, stp). nat (ylim - y))") auto




text \<open>The counters \<open>iweights\<close> of \<open>config_input\<close> for a geometry, from zeroed memory.\<close>

definition iweights_of :: "int \<Rightarrow> int \<Rightarrow> int \<Rightarrow> int \<Rightarrow> (int \<Rightarrow> int) option" where
  "iweights_of w h bs stp =
     count_blocks (processable_dim w bs stp) (processable_dim h bs stp) bs stp
       (FFALIGN (processable_dim w bs stp) 32) (\<lambda>_. 0)"

text \<open>The map applied to a coefficient in sigma mode: the float \<open>s->th\<close> arrives as the
  \<open>int\<close> parameter \<open>sigma_th\<close>.\<close>

definition sigma_filter_coeff :: "DCTdnoizContext \<Rightarrow> cfloat \<Rightarrow> cfloat option" where
  "sigma_filter_coeff s b = map_option (\<lambda>sigma_th. filter_freq_coeff None sigma_th b) (int_of_cfloat (th s))"

text \<open>How many cells of the footprint of the block at offset \<open>off\<close> are the cell \<open>i\<close>.\<close>

definition hits :: "int \<Rightarrow> int \<Rightarrow> int \<Rightarrow> int \<Rightarrow> int" where
  "hits bs ls off i =
     sum_list (map (\<lambda>by. sum_list (map (\<lambda>bx. if off + by * ls + bx = i then 1 else 0) [0..bs - 1]))
                   [0..bs - 1])"

definition counter_at :: "int \<Rightarrow> int \<Rightarrow> int \<Rightarrow> int \<Rightarrow> int \<Rightarrow> int option" where
  "counter_at w h bs stp i = map_option (\<lambda>iweights. iweights i) (iweights_of w h bs stp)"



subsection \<open>Concrete configurations\<close>

text \<open>The zero-initialised private context with the defaults of the option table.\<close>

definition default_context :: DCTdnoizContext where
  "default_context =
     \<lparr>expr_str = None, expr = None, pr_width = 0, pr_height = 0, sigma = Fin 0, th = Fin 0,
      weights = (\<lambda>_. Fin 0), p_linesize = 0, overlap = - 1, step = 0, n = 3, bsize = 0,
      filter_freq_func = None, color_decorrelation_func = None, color_correlation_func = None\<rparr>"

text \<open>A parser that rejects its input with \<open>AVERROR(EINVAL)\<close>, as \<open>av_expr_parse\<close> does for
  a malformed expression.\<close>

definition failing_parser :: "string \<Rightarrow> int \<times> AVExpr option" where
  "failing_parser str = (AVERROR EINVAL, None)"

text \<open>The overlap after the sentinel \<open>-1\<close> has been replaced by \<open>bsize - 1\<close>.\<close>

definition effective_overlap :: "DCTdnoizContext \<Rightarrow> int" where
  "effective_overlap s = (if overlap s = - 1 then 2 ^ nat (n s) - 1 else overlap s)"

text \<open>The context after \<open>init\<close> and \<open>config_input\<close> for an RGB24 link of the given size, when
  every allocation succeeds.\<close>

definition configured :: "int \<Rightarrow> int \<Rightarrow> DCTdnoizContext \<Rightarrow> DCTdnoizContext" where
  "configured w h cfg =
     (case config_input (\<lambda>k. True) (\<lambda>i. Fin 0) AV_PIX_FMT_RGB24 w h (snd (init failing_parser cfg)) of
        Some (st, s') \<Rightarrow> s'
      | None \<Rightarrow> cfg)"

text \<open>A frame of zero bytes with the given line size.\<close>

definition zero_frame :: "int \<Rightarrow> AVFrame" where
  "zero_frame ls = \<lparr>data = (\<lambda>i. 0), linesize = ls\<rparr>"

text \<open>A parser that accepts its input as the expression \<open>c\<close>.\<close>

definition identity_parser :: "string \<Rightarrow> int \<times> AVExpr option" where
  "identity_parser str = (0, Some (\<lambda>c. c))"

subsection \<open>The filter as its host runs it\<close>

text \<open>Modelled from the spec: the host that owns the filter is not part of the sources
  here; it sets the options, calls \<open>init\<close>, then \<open>config_input\<close> when the dimensions of
  the link are known, then \<open>filter_frame\<close> for a frame, and gives up at the first negative
  return value.\<close>

definition run_filter ::
  "(string \<Rightarrow> int \<times> AVExpr option) \<Rightarrow> (nat \<Rightarrow> bool) \<Rightarrow> (int \<Rightarrow> cfloat) \<Rightarrow> AVPixelFormat \<Rightarrow> int \<Rightarrow> int
     \<Rightarrow> bool \<Rightarrow> AVFrame option \<Rightarrow> (AVFrame \<Rightarrow> int) \<Rightarrow> DCTdnoizContext \<Rightarrow> AVFrame
     \<Rightarrow> (status \<times> AVFrame option) option" where
  "run_filter av_expr_parse alloc_ok fresh format w h writable new_buffer ff_filter_frame cfg inp =
     (case init av_expr_parse cfg of
        (Returned r, s) \<Rightarrow>
          if r < 0 then Some (Returned r, None)
          else (case config_input alloc_ok fresh format w h s of
                  None \<Rightarrow> None
                | Some (Returned r', s') \<Rightarrow>
                    if r' < 0 then Some (Returned r', None)
                    else filter_frame s' w h writable new_buffer fresh ff_filter_frame inp
                | Some (Aborted, s') \<Rightarrow> Some (Aborted, None)
                | Some (Undefined, s') \<Rightarrow> Some (Undefined, None))
      | (Aborted, s) \<Rightarrow> Some (Aborted, None)
      | (Undefined, s) \<Rightarrow> Some (Undefined, None))"

section \<open>Evaluation of floating-point operations\<close>

lemma bitlen_Bit0: "bitlen (numeral (Num.Bit0 k)) = bitlen (numeral k) + 1"
  by (subst compute_bitlen) simp

lemma bitlen_Bit1: "bitlen (numeral (Num.Bit1 k)) = bitlen (numeral k) + 1"
  by (subst compute_bitlen) simp

lemma bitlen_One: "bitlen 1 = 1"
  by (subst compute_bitlen) simp

lemma floor_rat_numeral_div: "\<lfloor>numeral a / numeral b :: rat\<rfloor> = numeral a div numeral b"
  using floor_divide_of_int_eq [of "numeral a" "numeral b", where ?'a = rat] by simp

lemma floor_rat_neg_numeral_div: "\<lfloor>- (numeral a / numeral b) :: rat\<rfloor> = (- numeral a) div numeral b"
  using floor_divide_of_int_eq [of "- numeral a" "numeral b", where ?'a = rat] by simp

lemma floor_rat_one_div: "\<lfloor>1 / numeral b :: rat\<rfloor> = 1 div numeral b"
  using floor_divide_of_int_eq [of 1 "numeral b", where ?'a = rat] by simp

lemma ceiling_rat_numeral_div: "\<lceil>numeral a / numeral b :: rat\<rceil> = - ((- numeral a) div numeral b)"
  using ceiling_divide_eq_div [of "numeral a" "numeral b", where ?'a = rat] by simp

lemma ceiling_rat_neg_numeral_div: "\<lceil>- (numeral a / numeral b) :: rat\<rceil> = - (numeral a div numeral b)"
  using ceiling_divide_eq_div [of "- numeral a" "numeral b", where ?'a = rat] by simp

lemma powi_neg_numeral: "(2::rat) powi (- numeral k) = 1 / 2 ^ numeral k"
  by (simp add: power_int_def power_one_over inverse_eq_divide)

lemmas num_eval = bitlen_Bit0 bitlen_Bit1 bitlen_One floor_rat_numeral_div floor_rat_neg_numeral_div
  floor_rat_one_div ceiling_rat_numeral_div ceiling_rat_neg_numeral_div powi_neg_numeral

lemmas float_eval =
  f32_def f64_def round_bin_def round_even_def ilog2_def Let_def FLT_MAX_def DBL_MAX_def
  flit_def dlit_def d_of_f_def f_of_d_def f_of_int_def d_of_int_def
  plus_cfloat_def minus_cfloat_def times_cfloat_def uminus_cfloat_def
  plus_cdouble_def minus_cdouble_def times_cdouble_def uminus_cdouble_def divide_cdouble_def
  num_eval


section \<open>Properties\<close>

subsection \<open>Cropping\<close>

lemma c_rem_nonneg: "0 \<le> a \<Longrightarrow> 0 < b \<Longrightarrow> c_rem a b = a mod b"
proof (cases "a = 0")
  case True
  then show ?thesis by (simp add: c_rem_def c_div_def)
next
  case False
  assume "0 \<le> a" "0 < b"
  with False have "sgn a = 1" "sgn b = 1" "\<bar>a\<bar> = a" "\<bar>b\<bar> = b" by simp_all
  then show ?thesis by (simp add: c_rem_def c_div_def minus_div_mult_eq_mod)
qed

lemma processable_dim_spec:
  "bs \<le> d \<Longrightarrow> 0 < stp \<Longrightarrow> processable_dim d bs stp = spec_processable_dim d bs stp"
  by (simp add: processable_dim_def spec_processable_dim_def c_rem_nonneg)

lemma config_input_geometry:
  assumes "config_input alloc_ok fresh format w h s = Some (Returned 0, s')"
  shows "pr_width s' = processable_dim w (2 ^ nat (n s)) (step s) \<and>
         pr_height s' = processable_dim h (2 ^ nat (n s)) (step s) \<and>
         p_linesize s' = FFALIGN (pr_width s') 32 \<and> step s' = step s \<and> n s' = n s \<and> bsize s' = bsize s
         \<and> step s \<noteq> 0"
  using assms
  by (auto simp: config_input_def Let_def AVERROR_def ENOMEM_def
           split: AVPixelFormat.splits if_splits option.splits Option.bind_splits)

lemma processable_dim_crop:
  assumes "bs \<le> d" "1 \<le> stp"
  shows "bs \<le> processable_dim d bs stp \<and> processable_dim d bs stp \<le> d \<and>
         stp dvd (processable_dim d bs stp - bs)"
proof -
  have e: "processable_dim d bs stp = d - (d - bs) mod stp"
    using assms by (simp add: processable_dim_def c_rem_nonneg)
  have m: "0 \<le> (d - bs) mod stp" "(d - bs) mod stp \<le> d - bs"
    using assms by (simp_all add: zmod_le_nonneg_dividend)
  have "d - (d - bs) mod stp - bs = (d - bs) - (d - bs) mod stp" by simp
  also have "\<dots> = stp * ((d - bs) div stp)" by (simp add: minus_mod_eq_mult_div)
  finally have "stp dvd (d - (d - bs) mod stp - bs)" by simp
  with m show ?thesis unfolding e by simp
qed

text \<open>
  C10. For a dimension of at least the block size and a step between 1 and the block size,
  the cropped dimension lies between the block size and the dimension and exceeds the block
  size by a multiple of the step. For a dimension below the block size this fails: the
  remainder of the negative dividend is negative, and for dimension 5, block size 8 and
  step 2 the cropped dimension 6 exceeds the dimension.
\<close>

theorem processable_dim_bounds:
  "(\<forall>d bs stp. bs \<le> d \<and> 1 \<le> stp \<and> stp \<le> bs \<longrightarrow>
      bs \<le> processable_dim d bs stp \<and> processable_dim d bs stp \<le> d \<and>
      stp dvd (processable_dim d bs stp - bs)) \<and>
   (\<exists>d bs stp. (bs = 8 \<or> bs = 16) \<and> 0 < d \<and> d < bs \<and> 1 < stp \<and> stp \<le> bs \<and>
      d < processable_dim d bs stp)"
proof
  show "\<forall>d bs stp. bs \<le> d \<and> 1 \<le> stp \<and> stp \<le> bs \<longrightarrow>
      bs \<le> processable_dim d bs stp \<and> processable_dim d bs stp \<le> d \<and>
      stp dvd (processable_dim d bs stp - bs)"
    by (simp add: processable_dim_crop)
next
  have "(5::int) < processable_dim 5 8 2"
    by (simp add: processable_dim_def c_rem_def c_div_def)
  then show "\<exists>d bs stp. (bs = 8 \<or> bs = 16) \<and> 0 < d \<and> d < bs \<and> 1 < stp \<and> stp \<le> bs \<and>
      d < processable_dim d bs stp"
    by (intro exI [of _ 5] exI [of _ 8] exI [of _ 2]) simp
qed

theorem processable_dim_bounds_witness:
  "(16::int) \<le> 20 \<and> (1::int) \<le> 16 \<and> 16 \<le> processable_dim 20 16 16 \<and> processable_dim 20 16 16 \<le> 20 \<and>
   (16::int) dvd (processable_dim 20 16 16 - 16)"
  using processable_dim_bounds by simp

subsection \<open>Rejection of a configuration\<close>

lemma init_characterisation:
  "fst (init p s) = Returned (AVERROR EINVAL) \<longleftrightarrow>
     2 ^ nat (n s) - 1 < effective_overlap s \<or>
     (\<exists>str. expr_str s = Some str \<and> fst (p str) = AVERROR EINVAL)"
  by (auto simp: init_def init_finish_def effective_overlap_def Let_def AVERROR_def EINVAL_def
      split: option.splits prod.splits if_splits)

text \<open>
  C9 as stated fails: with the default overlap and an expression that the parser rejects
  with \<open>AVERROR(EINVAL)\<close>, \<open>init\<close> returns \<open>AVERROR(EINVAL)\<close> although the overlap does not
  exceed \<open>bsize - 1\<close>.
\<close>

theorem init_overlap_check_counterexample:
  "fst (init failing_parser (default_context\<lparr>expr_str := Some ''(''\<rparr>)) = Returned (AVERROR EINVAL) \<and>
   \<not> 2 ^ nat (n (default_context\<lparr>expr_str := Some ''(''\<rparr>)) - 1
       < effective_overlap (default_context\<lparr>expr_str := Some ''(''\<rparr>)"
  by (simp add: init_def failing_parser_def default_context_def effective_overlap_def Let_def
      AVERROR_def EINVAL_def)

text \<open>
  C9 amended. \<open>init\<close> returns \<open>AVERROR(EINVAL)\<close> exactly when the overlap (after the sentinel
  has been replaced) exceeds \<open>bsize - 1\<close>, or an expression is supplied for which the parser
  returns \<open>AVERROR(EINVAL)\<close>. When the overlap exceeds \<open>bsize - 1\<close> the context is left as it
  was except for the field \<open>bsize\<close>: no expression is parsed and no filter function is
  installed. On success the step is \<open>bsize - overlap\<close>, at least 1, and a filter function is
  installed.
\<close>

theorem init_overlap_check:
  "(fst (init p s) = Returned (AVERROR EINVAL) \<longleftrightarrow>
      2 ^ nat (n s) - 1 < effective_overlap s \<or>
      (\<exists>str. expr_str s = Some str \<and> fst (p str) = AVERROR EINVAL)) \<and>
   (2 ^ nat (n s) - 1 < effective_overlap s \<longrightarrow>
      init p s = (Returned (AVERROR EINVAL), s\<lparr>bsize := 2 ^ nat (n s)\<rparr>)) \<and>
   (fst (init p s) = Returned 0 \<longrightarrow>
      step (snd (init p s)) = bsize (snd (init p s)) - overlap (snd (init p s)) \<and>
      1 \<le> step (snd (init p s)) \<and> filter_freq_func (snd (init p s)) \<noteq> None)"
proof (intro conjI impI)
  show "fst (init p s) = Returned (AVERROR EINVAL) \<longleftrightarrow>
      2 ^ nat (n s) - 1 < effective_overlap s \<or>
      (\<exists>str. expr_str s = Some str \<and> fst (p str) = AVERROR EINVAL)"
    by (rule init_characterisation)
next
  assume "2 ^ nat (n s) - 1 < effective_overlap s"
  then show "init p s = (Returned (AVERROR EINVAL), s\<lparr>bsize := 2 ^ nat (n s)\<rparr>)"
    by (auto simp: init_def effective_overlap_def Let_def split: if_splits)
next
  assume r: "fst (init p s) = Returned 0"
  then show "step (snd (init p s)) = bsize (snd (init p s)) - overlap (snd (init p s))"
    by (auto simp: init_def init_finish_def Let_def AVERROR_def EINVAL_def
        split: option.splits prod.splits if_splits)
  from r show "1 \<le> step (snd (init p s))"
    by (auto simp: init_def init_finish_def Let_def AVERROR_def EINVAL_def
        split: option.splits prod.splits if_splits)
  from r show "filter_freq_func (snd (init p s)) \<noteq> None"
    by (auto simp: init_def init_finish_def Let_def AVERROR_def EINVAL_def
        split: option.splits prod.splits if_splits)
qed

theorem init_overlap_check_witness:
  "init failing_parser (default_context\<lparr>overlap := 10\<rparr>)
     = (Returned (AVERROR EINVAL), default_context\<lparr>overlap := 10, bsize := 8\<rparr>) \<and>
   fst (init failing_parser default_context) = Returned 0 \<and>
   step (snd (init failing_parser default_context)) = 1"
proof -
  have a: "2 ^ nat (n (default_context\<lparr>overlap := 10\<rparr>)) - 1 < effective_overlap (default_context\<lparr>overlap := 10\<rparr>)"
    by (simp add: default_context_def effective_overlap_def)
  have b: "fst (init failing_parser default_context) = Returned 0"
    by (simp add: init_def init_finish_def default_context_def Let_def)
  have c: "bsize (snd (init failing_parser default_context)) = 8"
    "overlap (snd (init failing_parser default_context)) = 7"
    by (simp_all add: init_def init_finish_def default_context_def Let_def)
  from init_overlap_check [of failing_parser "default_context\<lparr>overlap := 10\<rparr>"] a
  have "init failing_parser (default_context\<lparr>overlap := 10\<rparr>)
     = (Returned (AVERROR EINVAL), default_context\<lparr>overlap := 10, bsize := 8\<rparr>)"
    by (simp add: default_context_def)
  moreover from init_overlap_check [of failing_parser default_context] b c
  have "step (snd (init failing_parser default_context)) = 1" by simp
  ultimately show ?thesis using b by simp
qed

subsection \<open>Folds that update cells of a buffer\<close>

lemma fold_nested:
  "fold (\<lambda>y. fold (F y) xs) ys s = fold (\<lambda>(y, x). F y x) (List.product ys xs) s"
  by (induction ys arbitrary: s) (simp_all add: fold_map comp_def)

lemma lin_idx_inj:
  fixes a :: int
  assumes "0 \<le> a" "a < m" "0 \<le> a'" "a' < m" "y * m + a = y' * m + a'"
  shows "y = y' \<and> a = a'"
proof -
  have "(y * m + a) div m = y" "(y' * m + a') div m = y'" using assms(1-4) by simp_all
  then have "y = y'" using assms(5) by simp
  then show ?thesis using assms(5) by simp
qed






subsection \<open>Loops with a step\<close>

declare steps.simps [simp del]

lemma for_step_fold:
  "0 < stp \<Longrightarrow> for_step y ylim stp (\<lambda>y st. Some (f y st)) st = Some (fold f (steps y ylim stp) st)"
proof (induction y ylim stp arbitrary: st rule: steps.induct)
  case (1 y ylim stp)
  show ?case
  proof (cases "y < ylim")
    case True
    with 1 show ?thesis
      by (subst for_step.simps, subst steps.simps) simp
  next
    case False
    then show ?thesis
      by (subst for_step.simps, subst steps.simps) simp
  qed
qed


lemma for_step_fold_fun:
  "0 < stp \<Longrightarrow> for_step y ylim stp (\<lambda>y st. Some (f y st)) = (\<lambda>st. Some (fold f (steps y ylim stp) st))"
  by (rule ext) (rule for_step_fold)

lemma steps_empty: "ylim \<le> y \<Longrightarrow> steps y ylim stp = []"
  by (subst steps.simps) simp

subsection \<open>The coverage counters of config_input\<close>

lemma fold_pointwise_add:
  fixes c :: "'k \<Rightarrow> int \<Rightarrow> int"
  assumes "\<And>k f. F k f = (\<lambda>i. f i + c k i)"
  shows "fold F ks f = (\<lambda>i. f i + sum_list (map (\<lambda>k. c k i) ks))"
proof (induction ks arbitrary: f)
  case Nil
  show ?case by simp
next
  case (Cons k ks)
  have "fold F (k # ks) f = fold F ks (F k f)" by simp
  also have "\<dots> = (\<lambda>i. F k f i + sum_list (map (\<lambda>k. c k i) ks))" by (rule Cons)
  also have "\<dots> = (\<lambda>i. f i + sum_list (map (\<lambda>k. c k i) (k # ks)))"
    by (simp add: assms add.assoc)
  finally show ?case .
qed

lemma count_block_hits: "count_block bs ls y x iw = (\<lambda>i. iw i + hits bs ls (y * ls + x) i)"
proof -
  have inner: "(\<lambda>bx iw. iw((y + j) * ls + x + bx := iw ((y + j) * ls + x + bx) + 1)) k f
        = (\<lambda>i. f i + (\<lambda>bx i. if y * ls + x + j * ls + bx = i then 1 else 0) k i)"
    for j k and f :: "int \<Rightarrow> int"
    by (auto simp: fun_eq_iff algebra_simps)
  have row: "(\<lambda>j iw. fold (\<lambda>bx iw. iw((y + j) * ls + x + bx := iw ((y + j) * ls + x + bx) + 1)) [0..bs - 1] iw) j f
        = (\<lambda>i. f i + (\<lambda>j i. sum_list (map (\<lambda>bx. if y * ls + x + j * ls + bx = i then 1 else 0) [0..bs - 1])) j i)"
    for j and f :: "int \<Rightarrow> int"
    using fold_pointwise_add [where ks = "[0..bs - 1]" and f = f, OF inner] by simp
  show ?thesis
    unfolding count_block_def hits_def
    using fold_pointwise_add [where ks = "[0..bs - 1]" and f = iw, OF row] by simp
qed

lemma count_blocks_fold:
  assumes "0 < stp"
  shows "count_blocks prw prh bs stp ls iw =
     Some (\<lambda>i. iw i + sum_list (map (\<lambda>y. sum_list (map (\<lambda>x. hits bs ls (y * ls + x) i)
                                                    (steps 0 (prw - bs + 1) stp)))
                              (steps 0 (prh - bs + 1) stp)))"
proof -
  have cb: "(\<lambda>x iw. count_block bs ls y x iw) x f = (\<lambda>i. f i + (\<lambda>x i. hits bs ls (y * ls + x) i) x i)" for y x f
    by (simp add: count_block_hits)
  have row: "(\<lambda>y iw. fold (\<lambda>x iw. count_block bs ls y x iw) xs iw) y f
      = (\<lambda>i. f i + (\<lambda>y i. sum_list (map (\<lambda>x. hits bs ls (y * ls + x) i) xs)) y i)" for y xs f
    using fold_pointwise_add [where ks = xs and f = f, OF cb] by simp
  have inner: "for_step 0 (prw - bs + 1) stp (\<lambda>x iw. Some (count_block bs ls y x iw))
      = (\<lambda>f. Some (fold (\<lambda>x iw. count_block bs ls y x iw) (steps 0 (prw - bs + 1) stp) f))" for y
    by (rule ext) (rule for_step_fold [OF assms])
  have "count_blocks prw prh bs stp ls iw =
      for_step 0 (prh - bs + 1) stp
        (\<lambda>y iw. Some (fold (\<lambda>x iw. count_block bs ls y x iw) (steps 0 (prw - bs + 1) stp) iw)) iw"
    unfolding count_blocks_def by (simp only: inner)
  also have "\<dots> = Some (fold (\<lambda>y iw. fold (\<lambda>x iw. count_block bs ls y x iw) (steps 0 (prw - bs + 1) stp) iw)
                 (steps 0 (prh - bs + 1) stp) iw)"
    by (rule for_step_fold [OF assms])
  also have "fold (\<lambda>y iw. fold (\<lambda>x iw. count_block bs ls y x iw) (steps 0 (prw - bs + 1) stp) iw)
                 (steps 0 (prh - bs + 1) stp) iw
      = (\<lambda>i. iw i + sum_list (map (\<lambda>y. sum_list (map (\<lambda>x. hits bs ls (y * ls + x) i)
                                                    (steps 0 (prw - bs + 1) stp)))
                              (steps 0 (prh - bs + 1) stp)))"
    using fold_pointwise_add [where ks = "steps 0 (prh - bs + 1) stp" and f = iw, OF row] by simp
  finally show ?thesis .
qed


subsection \<open>The sweep of filter_plane\<close>

lemma fold_sweep_offsets:
  "fst (fold (\<lambda>(y::int) (acc, soff, doff).
               (fold (\<lambda>x acc. g (soff + x) (doff + x) acc) xs acc, soff + stp * sl, doff + stp * dl))
             (steps y ylim stp) (a, y * sl, y * dl))
     = fold (\<lambda>y acc. fold (\<lambda>x acc. g (y * sl + x) (y * dl + x) acc) xs acc) (steps y ylim stp) a"
proof (induction y ylim stp arbitrary: a rule: steps.induct)
  case (1 y ylim stp)
  show ?case
  proof (cases "y < ylim \<and> 0 < stp")
    case True
    have e: "(y + stp) * sl = y * sl + stp * sl" "(y + stp) * dl = y * dl + stp * dl"
      by (simp_all add: algebra_simps)
    from True 1 [of "fold (\<lambda>x acc. g (y * sl + x) (y * dl + x) acc) xs a"]
    show ?thesis
      by (subst (1 2) steps.simps) (simp add: e)
  next
    case False
    then have "steps y ylim stp = []" by (subst steps.simps) auto
    then show ?thesis by simp
  qed
qed

lemma block_sweep_fold:
  assumes "0 < stp"
  shows "block_sweep g bs stp sl dl w h acc =
     Some (fold (\<lambda>y acc. fold (\<lambda>x acc. g (y * sl + x) (y * dl + x) acc) (steps 0 (w - bs + 1) stp) acc)
                (steps 0 (h - bs + 1) stp) acc)"
proof -
  let ?xs = "steps 0 (w - bs + 1) stp"
  let ?F = "\<lambda>(y::int) (acc, soff, doff).
              (fold (\<lambda>x acc. g (soff + x) (doff + x) acc) ?xs acc, soff + stp * sl, doff + stp * dl)"
  let ?G = "\<lambda>y acc. fold (\<lambda>x acc. g (y * sl + x) (y * dl + x) acc) ?xs acc"
  have inner: "for_step 0 (w - bs + 1) stp (\<lambda>x acc. Some (g (soff + x) (doff + x) acc))
      = (\<lambda>a. Some (fold (\<lambda>x acc. g (soff + x) (doff + x) acc) ?xs a))" for soff doff
    by (rule for_step_fold_fun [OF assms])
  have body: "(\<lambda>y (acc, soff, doff).
             Option.bind (for_step 0 (w - bs + 1) stp (\<lambda>x acc. Some (g (soff + x) (doff + x) acc)) acc)
               (\<lambda>acc. Some (acc, soff + stp * sl, doff + stp * dl)))
      = (\<lambda>y st. Some (?F y st))"
    by (intro ext) (simp add: inner split: prod.splits)
  have "block_sweep g bs stp sl dl w h acc
      = map_option fst (for_step 0 (h - bs + 1) stp (\<lambda>y st. Some (?F y st)) (acc, 0, 0))"
    unfolding block_sweep_def by (simp only: body)
  also have "\<dots> = Some (fst (fold ?F (steps 0 (h - bs + 1) stp) (acc, 0 * sl, 0 * dl)))"
    by (simp add: for_step_fold [OF assms])
  also have "\<dots> = Some (fold ?G (steps 0 (h - bs + 1) stp) acc)"
    by (simp only: fold_sweep_offsets)
  finally show ?thesis .
qed






subsection \<open>Footprints\<close>








subsection \<open>Coverage of the processable region\<close>





lemma fold_pointwise_set:
  assumes "\<And>k f. F k f = (\<lambda>i. if i \<in> S k then V i else f i)"
  shows "fold F ks f = (\<lambda>i. if i \<in> (\<Union>k\<in>set ks. S k) then V i else f i)"
proof (induction ks arbitrary: f)
  case Nil
  show ?case by simp
next
  case (Cons k ks)
  have "fold F (k # ks) f = fold F ks (F k f)" by simp
  also have "\<dots> = (\<lambda>i. if i \<in> (\<Union>k\<in>set ks. S k) then V i else F k f i)" by (rule Cons)
  also have "\<dots> = (\<lambda>i. if i \<in> (\<Union>k\<in>set (k # ks). S k) then V i else f i)"
    by (auto simp: assms fun_eq_iff)
  finally show ?case .
qed

lemma set_weights_eq:
  "set_weights prw prh ls iw ws =
     (\<lambda>i. if (\<exists>y\<in>{0..prh - 1}. \<exists>x\<in>{0..prw - 1}. i = y * ls + x)
          then f_of_d (dlit 1 / d_of_int (iw i)) else ws i)"
proof -
  let ?V = "\<lambda>i. f_of_d (dlit 1 / d_of_int (iw i))"
  have cell: "(\<lambda>x ws. ws(y * ls + x := ?V (y * ls + x))) x f
      = (\<lambda>i. if i \<in> (\<lambda>x. {y * ls + x}) x then ?V i else f i)" for y x and f :: "int \<Rightarrow> cfloat"
    by (auto simp: fun_eq_iff)
  have row: "(\<lambda>y ws. fold (\<lambda>x ws. ws(y * ls + x := ?V (y * ls + x))) [0..prw - 1] ws) y f
      = (\<lambda>i. if i \<in> (\<lambda>y. \<Union>x\<in>set [0..prw - 1]. {y * ls + x}) y then ?V i else f i)" for y and f :: "int \<Rightarrow> cfloat"
    using fold_pointwise_set [where ks = "[0..prw - 1]" and f = f, OF cell] by simp
  have "set_weights prw prh ls iw ws
      = (\<lambda>i. if i \<in> (\<Union>y\<in>set [0..prh - 1]. \<Union>x\<in>set [0..prw - 1]. {y * ls + x}) then ?V i else ws i)"
    unfolding set_weights_def
    using fold_pointwise_set [where ks = "[0..prh - 1]" and f = ws, OF row] by simp
  then show ?thesis by (auto simp: fun_eq_iff)
qed



subsection \<open>Facts about init and config_input\<close>


lemma config_input_weights:
  assumes "config_input alloc_ok fresh format w h s = Some (Returned 0, s')"
  shows "\<exists>iw. iweights_of w h (2 ^ nat (n s)) (step s) = Some iw \<and>
              weights s' = set_weights (pr_width s') (pr_height s') (p_linesize s') iw fresh"
  using assms
  by (auto simp: config_input_def iweights_of_def Let_def AVERROR_def ENOMEM_def
           split: AVPixelFormat.splits if_splits option.splits Option.bind_splits)





lemma configured_eq:
  "config_input (\<lambda>k. True) (\<lambda>i. Fin 0) AV_PIX_FMT_RGB24 w h (snd (init failing_parser cfg)) = Some (st, s')
     \<Longrightarrow> configured w h cfg = s'"
  by (simp add: configured_def)



lemma init_overlap6:
  "init failing_parser (default_context\<lparr>overlap := 6\<rparr>)
     = (Returned 0, default_context\<lparr>overlap := 6, bsize := 8,
          filter_freq_func := Some Filter_freq_sigma_8, th := Fin 0, step := 2\<rparr>)"
  by (simp add: init_def init_finish_def default_context_def Let_def float_eval split del: if_split)



subsection \<open>The processable dimensions\<close>





subsection \<open>Relative error of a rounding\<close>

lemma round_even_close: "\<bar>of_int (round_even y) - y\<bar> \<le> 1 / 2"
proof -
  have f: "of_int \<lfloor>y\<rfloor> \<le> y" "y < of_int \<lfloor>y\<rfloor> + 1" by linarith+
  show ?thesis
    unfolding round_even_def Let_def using f by (auto split: if_splits)
qed

lemma ilog2_upper:
  assumes "0 < x" "x < 2 ^ k" "0 < k"
  shows "ilog2 x \<le> int k - 1"
proof (cases "1 \<le> x")
  case True
  have "of_int \<lfloor>x\<rfloor> \<le> x" by simp
  also have "x < 2 ^ k" by fact
  finally have "(of_int \<lfloor>x\<rfloor> :: rat) < of_int (2 ^ k)" by simp
  then have "\<lfloor>x\<rfloor> < 2 ^ k" by (simp only: of_int_less_iff)
  then have "bitlen \<lfloor>x\<rfloor> \<le> int k" by (simp add: bitlen_le_iff_power)
  with True show ?thesis by (simp add: ilog2_def)
next
  case False
  then have "ilog2 x = - bitlen (\<lceil>1 / x\<rceil> - 1)" by (simp add: ilog2_def)
  moreover have "0 \<le> bitlen (\<lceil>1 / x\<rceil> - 1)" by (rule bitlen_nonneg)
  ultimately show ?thesis using assms(3) by simp
qed










subsection \<open>Counters, covering blocks and the averaging pass\<close>












subsection \<open>Weights and coverage\<close>







lemma config_5_5:
  "\<exists>s'. config_input (\<lambda>k. True) (\<lambda>i. Fin 0) AV_PIX_FMT_RGB24 5 5
          (snd (init failing_parser default_context)) = Some (Returned 0, s')"
proof -
  have s: "step (snd (init failing_parser default_context)) = 1" "n (snd (init failing_parser default_context)) = 3"
    by (simp_all add: init_def init_finish_def default_context_def Let_def)
  show ?thesis
    by (simp add: config_input_def Let_def s count_blocks_fold)
qed

text \<open>
  C1 fails on the code for an image smaller than the block. With the default options
  (block size 8, step 1) and a 5x5 input, \<open>config_input\<close> succeeds with a 5x5 processable
  region; no block position is visited, the counter of the pixel (0,0) is 0 and its
  weight is the non-finite result of \<open>1. / 0\<close>.
\<close>

theorem config_input_zero_counter:
  "pr_width (configured 5 5 default_context) = 5 \<and> pr_height (configured 5 5 default_context) = 5 \<and>
   counter_at 5 5 8 1 0 = Some 0 \<and> weights (configured 5 5 default_context) 0 = NonFinite"
proof -
  let ?s = "snd (init failing_parser default_context)"
  have s: "step ?s = 1" "n ?s = 3"
    by (simp_all add: init_def init_finish_def default_context_def Let_def)
  have pd: "processable_dim 5 8 1 = 5"
    by (simp add: processable_dim_def c_rem_def c_div_def)
  have iw: "iweights_of 5 5 8 1 = Some (\<lambda>i. 0)"
    by (simp add: iweights_of_def pd count_blocks_fold steps_empty)
  from config_5_5 obtain s' where
    r: "config_input (\<lambda>k. True) (\<lambda>i. Fin 0) AV_PIX_FMT_RGB24 5 5 ?s = Some (Returned 0, s')" by blast
  have c: "configured 5 5 default_context = s'" by (rule configured_eq [OF r])
  from config_input_geometry [OF r] have g: "pr_width s' = 5" "pr_height s' = 5"
    by (simp_all add: s pd)
  from config_input_weights [OF r] iw
  have w: "weights s' = set_weights 5 5 (p_linesize s') (\<lambda>i. 0) (\<lambda>i. Fin 0)"
    by (simp add: s g)
  have "\<exists>y\<in>{0..5 - 1}. \<exists>x\<in>{0..5 - 1}. (0::int) = y * p_linesize s' + x"
    by (intro bexI [of _ 0]) simp_all
  then have "weights s' 0 = f_of_d (dlit 1 / d_of_int 0)"
    unfolding w set_weights_eq by (simp only: if_True)
  also have "\<dots> = NonFinite"
    by (simp add: float_eval split del: if_split)
  finally show ?thesis using g iw by (simp add: c counter_at_def)
qed





subsection \<open>The threshold of the sigma mode\<close>

text \<open>
  C4 fails on the code: the float threshold \<open>s->th = 3 * sigma\<close> is passed for the \<open>int\<close>
  parameter \<open>sigma_th\<close> of \<open>filter_freq_<bsize>\<close> and loses its fraction. With sigma 0.5 the
  threshold 1.5 becomes 1, and the coefficient 1.25, whose magnitude is below 3 * sigma,
  is left unchanged instead of being zeroed.
\<close>

theorem sigma_threshold_truncated:
  "th (snd (init failing_parser (default_context\<lparr>sigma := Fin (1 / 2)\<rparr>))) = Fin (3 / 2) \<and>
   filter_freq_func (snd (init failing_parser (default_context\<lparr>sigma := Fin (1 / 2)\<rparr>)))
     = Some Filter_freq_sigma_8 \<and>
   int_of_cfloat (Fin (3 / 2)) = Some 1 \<and>
   sigma_filter_coeff (snd (init failing_parser (default_context\<lparr>sigma := Fin (1 / 2)\<rparr>))) (Fin (5 / 4))
     = Some (Fin (5 / 4)) \<and>
   \<bar>5 / 4 :: rat\<bar> < 3 * (1 / 2)"
proof -
  let ?s = "snd (init failing_parser (default_context\<lparr>sigma := Fin (1 / 2)\<rparr>))"
  have t: "th ?s = Fin (3 / 2)"
    by (simp add: init_def init_finish_def default_context_def Let_def float_eval split del: if_split)
  have f: "filter_freq_func ?s = Some Filter_freq_sigma_8"
    by (simp add: init_def init_finish_def default_context_def Let_def)
  have i: "int_of_cfloat (Fin (3 / 2)) = Some 1"
    by (simp add: int_of_cfloat_def c_trunc_def Let_def num_eval)
  have c: "filter_freq_coeff None 1 (Fin (5 / 4)) = Fin (5 / 4)"
    by (simp add: filter_freq_coeff_def FFABS_def flt_def float_eval split del: if_split)
  show ?thesis
    by (simp add: t f i c sigma_filter_coeff_def)
qed


subsection \<open>Independence of sigma in expression mode\<close>

lemma config_input_sigma:
  "config_input al fr fmt w h (s\<lparr>sigma := a, th := t\<rparr>)
     = map_option (\<lambda>(st, s'). (st, s'\<lparr>sigma := a, th := t\<rparr>)) (config_input al fr fmt w h s)"
  by (simp add: config_input_def Let_def split: AVPixelFormat.splits option.splits Option.bind_splits)

lemma filter_plane_sigma: "filter_plane f (s\<lparr>sigma := a, th := t\<rparr>) = filter_plane f s"
  by (simp add: filter_plane_def fun_eq_iff)

lemma copy_padding_sigma: "copy_padding (s\<lparr>sigma := a, th := t\<rparr>) = copy_padding s"
  by (simp add: copy_padding_def fun_eq_iff Let_def cong: sum.case_cong if_cong)

lemma call_filter_freq_func_sigma:
  "ff = Filter_freq_expr_8 \<or> ff = Filter_freq_expr_16 \<Longrightarrow>
     call_filter_freq_func ff (s\<lparr>sigma := a, th := t\<rparr>) = call_filter_freq_func ff s"
  by (auto simp: call_filter_freq_func_def filter_freq_expr_8_def filter_freq_expr_16_def)

lemma filter_frame_sigma:
  assumes "filter_freq_func s = Some Filter_freq_expr_8 \<or> filter_freq_func s = Some Filter_freq_expr_16
           \<or> filter_freq_func s = None"
  shows "filter_frame (s\<lparr>sigma := a, th := t\<rparr>) w h wr nb fr ffr inp = filter_frame s w h wr nb fr ffr inp"
proof (cases "filter_freq_func s")
  case None
  then show ?thesis
    by (simp add: filter_frame_def split: option.splits prod.splits)
next
  case (Some ff)
  with assms have "ff = Filter_freq_expr_8 \<or> ff = Filter_freq_expr_16" by simp
  then have c: "call_filter_freq_func ff (s\<lparr>sigma := a, th := t\<rparr>) = call_filter_freq_func ff s"
    by (rule call_filter_freq_func_sigma)
  show ?thesis
    unfolding filter_frame_def
    by (simp add: Some c filter_plane_sigma copy_padding_sigma
        cong: option.case_cong prod.case_cong sum.case_cong if_cong)
qed

lemma init_sigma_expr:
  assumes "expr_str cfg = Some str"
  shows "init p (cfg\<lparr>sigma := a\<rparr>) =
     (case init p cfg of
        (st, s) \<Rightarrow> (st, if st = Returned 0 \<and> \<not> fst (p str) < 0
                         then s\<lparr>sigma := a, th := f_of_d (d_of_f a * dlit 3)\<rparr>
                         else s\<lparr>sigma := a\<rparr>))"
  using assms
  by (auto simp: init_def init_finish_def Let_def AVERROR_def EINVAL_def split: prod.splits)

lemma init_expr_func:
  assumes "expr_str cfg = Some str" "init p cfg = (Returned r, s)" "\<not> r < 0"
  shows "(filter_freq_func s = Some Filter_freq_expr_8 \<or> filter_freq_func s = Some Filter_freq_expr_16) \<and>
         r = 0 \<and> \<not> fst (p str) < 0"
  using assms
  by (auto simp: init_def init_finish_def Let_def AVERROR_def EINVAL_def split: prod.splits if_splits)

lemma run_filter_sigma:
  assumes "expr_str cfg = Some str"
  shows "run_filter p al fr fmt w h wr nb ffr (cfg\<lparr>sigma := a\<rparr>) inp = run_filter p al fr fmt w h wr nb ffr cfg inp"
proof (cases "init p cfg")
  case (Pair st s)
  show ?thesis
  proof (cases st)
    case (Returned r)
    show ?thesis
    proof (cases "r < 0")
      case True
      with Pair Returned show ?thesis
        by (simp add: run_filter_def init_sigma_expr [OF assms])
    next
      case False
      from init_expr_func [OF assms Pair [unfolded Returned] False]
      have f: "filter_freq_func s = Some Filter_freq_expr_8 \<or> filter_freq_func s = Some Filter_freq_expr_16"
        and r: "r = 0" and q: "\<not> fst (p str) < 0" by simp_all
      let ?t = "f_of_d (d_of_f a * dlit 3)"
      have i: "init p (cfg\<lparr>sigma := a\<rparr>) = (Returned 0, s\<lparr>sigma := a, th := ?t\<rparr>)"
        using Pair Returned r q by (simp add: init_sigma_expr [OF assms])
      have ff: "filter_freq_func s' = filter_freq_func s"
        if "config_input al fr fmt w h s = Some (st', s')" for st' s'
        using that
        by (auto simp: config_input_def Let_def
            split: AVPixelFormat.splits option.splits Option.bind_splits if_splits)
      show ?thesis
      proof (cases "config_input al fr fmt w h s")
        case None
        with Pair Returned r i show ?thesis
          by (simp add: run_filter_def config_input_sigma)
      next
        case (Some res)
        obtain st' s' where res: "res = (st', s')" by (cases res)
        from ff [OF Some [unfolded res]] f
        have f': "filter_freq_func s' = Some Filter_freq_expr_8 \<or> filter_freq_func s' = Some Filter_freq_expr_16
                  \<or> filter_freq_func s' = None" by auto
        from Pair Returned r i Some res show ?thesis
          by (simp add: run_filter_def config_input_sigma filter_frame_sigma [OF f'] split: status.splits)
      qed
    qed
  next
    case Aborted
    with Pair show ?thesis by (simp add: run_filter_def init_sigma_expr [OF assms])
  next
    case Undefined
    with Pair show ?thesis by (simp add: run_filter_def init_sigma_expr [OF assms])
  qed
qed


text \<open>
  C8. When an expression string is supplied, the result of running the filter on a frame
  (the status and the frame handed downstream) is the same for any two values of sigma,
  everything else being equal.
\<close>

theorem expression_overrides_sigma:
  assumes "expr_str cfg \<noteq> None"
  shows "run_filter p alloc_ok fresh format w h writable new_buffer ff_filter_frame (cfg\<lparr>sigma := sigma1\<rparr>) inp
       = run_filter p alloc_ok fresh format w h writable new_buffer ff_filter_frame (cfg\<lparr>sigma := sigma2\<rparr>) inp"
proof -
  from assms obtain str where "expr_str cfg = Some str" by auto
  then show ?thesis by (simp add: run_filter_sigma)
qed

theorem expression_overrides_sigma_witness:
  "expr_str (default_context\<lparr>expr_str := Some ''c''\<rparr>) \<noteq> None \<and>
   run_filter identity_parser (\<lambda>k. True) (\<lambda>i. Fin 0) AV_PIX_FMT_RGB24 9 9 True None (\<lambda>f. 0)
     (default_context\<lparr>expr_str := Some ''c'', sigma := Fin 1\<rparr>) (zero_frame 27)
   = run_filter identity_parser (\<lambda>k. True) (\<lambda>i. Fin 0) AV_PIX_FMT_RGB24 9 9 True None (\<lambda>f. 0)
     (default_context\<lparr>expr_str := Some ''c'', sigma := Fin 30\<rparr>) (zero_frame 27)"
proof -
  have e: "expr_str (default_context\<lparr>expr_str := Some ''c''\<rparr>) \<noteq> None" by simp
  from expression_overrides_sigma [OF e, of identity_parser "\<lambda>k. True" "\<lambda>i. Fin 0" AV_PIX_FMT_RGB24 9 9
      True None "\<lambda>f. 0" "Fin 1" "zero_frame 27" "Fin 30"]
  show ?thesis by simp
qed

subsection \<open>The frame outside the processable region\<close>

lemma fold_Inl:
  "fold (\<lambda>y acc. case acc of Inl e \<Rightarrow> Inl e | Inr d \<Rightarrow> G y d) ys (Inl e) = Inl e"
  by (induction ys) simp_all

lemma fold_invariant:
  assumes "\<And>x a. P a \<Longrightarrow> P (f x a)" "P a"
  shows "P (fold f xs a)"
  using assms(2) by (induction xs arbitrary: a) (simp_all add: assms(1))

lemma color_correlation_Inl:
  assumes "color_correlation dst dl src sl w h r g b = Inl e"
  shows "e = Undefined"
proof -
  let ?P = "\<lambda>acc :: status + (int \<Rightarrow> 8 word). \<forall>e. acc = Inl e \<longrightarrow> e = Undefined"
  have "?P (color_correlation dst dl src sl w h r g b)"
    unfolding color_correlation_def
    by (intro fold_invariant [where P = ?P])
       (auto split: sum.splits option.splits prod.splits simp: Let_def)
  with assms show ?thesis by simp
qed

lemma fold_memcpy_negative:
  assumes "len < 0" "1 \<le> m"
  shows "fold (\<lambda>y acc. case acc of Inl e \<Rightarrow> Inl e | Inr d \<Rightarrow> memcpy d (a y) src (b y) len)
              [0..m - 1] (Inr dst) = Inl Undefined"
proof -
  have u: "[0..m - 1] = 0 # [1..m - 1]"
    using assms(2) by (simp add: upto_rec1)
  show ?thesis
    unfolding u using assms(1) by (simp add: memcpy_def fold_Inl)
qed

lemma copy_padding_negative:
  assumes "(w - pr_width s) * 3 < 0" "1 \<le> pr_height s"
  shows "copy_padding s w h dst dl src sl = Inl Undefined"
proof -
  have n: "(w - pr_width s) * 3 \<noteq> 0" using assms(1) by simp
  have r1: "(if (w - pr_width s) * 3 \<noteq> 0
             then fold (\<lambda>y acc. case acc of Inl e \<Rightarrow> Inl e
                                 | Inr dst \<Rightarrow> memcpy dst (pr_width s * 3 + y * dl)
                                                src (pr_width s * 3 + y * sl) ((w - pr_width s) * 3))
                       [0..pr_height s - 1] (Inr dst)
             else Inr dst) = Inl Undefined"
    using n by (simp only: fold_memcpy_negative [OF assms]) simp
  show ?thesis
    unfolding copy_padding_def Let_def r1 by (simp add: fold_Inl)
qed

lemma filter_plane_Some:
  "0 < step s \<Longrightarrow> \<exists>d. filter_plane f s dst dl src sl w h = Some d"
  by (simp add: filter_plane_def block_sweep_fold)

lemma filter_frame_negative_hpad:
  assumes "color_decorrelation_func s = Some cd" "filter_freq_func s = Some ff" "color_correlation_func s = Some cc"
    and "call_filter_freq_func ff s = Some f" and "0 < step s"
    and "(w - pr_width s) * 3 < 0" "1 \<le> pr_height s"
  shows "filter_frame s w h False (Some out) fresh ffr inp = Some (Undefined, None)"
proof -
  obtain c0 c1 c2 where c: "call_color_decorrelation cd (fresh, fresh, fresh) (p_linesize s)
      (data inp) (linesize inp) (pr_width s) (pr_height s) = (c0, c1, c2)"
    by (cases "call_color_decorrelation cd (fresh, fresh, fresh) (p_linesize s)
      (data inp) (linesize inp) (pr_width s) (pr_height s)") auto
  obtain d0 where d0: "filter_plane f s fresh (p_linesize s) c0 (p_linesize s) (pr_width s) (pr_height s) = Some d0"
    using filter_plane_Some [OF assms(5)] by blast
  obtain d1 where d1: "filter_plane f s fresh (p_linesize s) c1 (p_linesize s) (pr_width s) (pr_height s) = Some d1"
    using filter_plane_Some [OF assms(5)] by blast
  obtain d2 where d2: "filter_plane f s fresh (p_linesize s) c2 (p_linesize s) (pr_width s) (pr_height s) = Some d2"
    using filter_plane_Some [OF assms(5)] by blast
  have cc: "\<And>e. call_color_correlation cc (data out) (linesize out) (d0, d1, d2) (p_linesize s)
      (pr_width s) (pr_height s) = Inl e \<Longrightarrow> e = Undefined"
    by (cases cc) (auto simp: call_color_correlation_def color_correlation_rgb_def color_correlation_bgr_def
        dest: color_correlation_Inl)
  show ?thesis
    unfolding filter_frame_def
    by (simp add: assms(1-4) c d0 d1 d2 copy_padding_negative [OF assms(6,7)] split: sum.splits)
       (use cc in blast)
qed


lemma config_7_21:
  "\<exists>s'. config_input (\<lambda>k. True) (\<lambda>i. Fin 0) AV_PIX_FMT_RGB24 7 21
          (snd (init failing_parser (default_context\<lparr>overlap := 6\<rparr>))) = Some (Returned 0, s') \<and>
        pr_width s' = 8 \<and> pr_height s' = 20 \<and> step s' = 2 \<and> th s' = Fin 0 \<and>
        color_decorrelation_func s' = Some Color_rgb \<and> color_correlation_func s' = Some Color_rgb \<and>
        filter_freq_func s' = Some Filter_freq_sigma_8"
  by (simp only: init_overlap6 snd_conv)
     (simp add: config_input_def Let_def count_blocks_fold default_context_def
        processable_dim_def c_rem_def c_div_def)


text \<open>
  C7 fails on the code for an input narrower than the block. For a 7x21 input with block
  size 8 and overlap 6 (step 2) the processable width is 8, larger than the input width;
  when the output is a new frame, \<open>hpad\<close> is \<open>(7 - 8) * 3 = -3\<close> and \<open>filter_frame\<close> calls
  \<open>memcpy\<close> with this negative length, which is undefined, instead of handing down a
  frame whose margin equals the input.
\<close>

theorem filter_frame_small_width_undefined:
  "pr_width (configured 7 21 (default_context\<lparr>overlap := 6\<rparr>)) = 8 \<and>
   pr_height (configured 7 21 (default_context\<lparr>overlap := 6\<rparr>)) = 20 \<and>
   filter_frame (configured 7 21 (default_context\<lparr>overlap := 6\<rparr>)) 7 21 False (Some (zero_frame 32))
     (\<lambda>i. Fin 0) (\<lambda>f. 0) (zero_frame 32) = Some (Undefined, None)"
proof -
  let ?cfg = "default_context\<lparr>overlap := 6\<rparr>"
  from config_7_21 obtain s' where
    r: "config_input (\<lambda>k. True) (\<lambda>i. Fin 0) AV_PIX_FMT_RGB24 7 21 (snd (init failing_parser ?cfg))
          = Some (Returned 0, s')"
    and g: "pr_width s' = 8" "pr_height s' = 20" "step s' = 2" "th s' = Fin 0"
      "color_decorrelation_func s' = Some Color_rgb" "color_correlation_func s' = Some Color_rgb"
      "filter_freq_func s' = Some Filter_freq_sigma_8"
    by blast
  have c: "configured 7 21 ?cfg = s'" by (rule configured_eq [OF r])
  have i: "int_of_cfloat (Fin 0) = Some 0"
    by (simp add: int_of_cfloat_def c_trunc_def Let_def)
  obtain f where f: "call_filter_freq_func Filter_freq_sigma_8 s' = Some f"
    by (simp add: call_filter_freq_func_def filter_freq_sigma_8_def g i)
  have "filter_frame s' 7 21 False (Some (zero_frame 32)) (\<lambda>i. Fin 0) (\<lambda>f. 0) (zero_frame 32)
      = Some (Undefined, None)"
    by (rule filter_frame_negative_hpad [OF g(5) g(7) g(6) f]) (simp_all add: g)
  then show ?thesis by (simp add: c g)
qed

section \<open>Colour decorrelation round trip\<close>

subsection \<open>Rounding error of binary32 arithmetic on small values\<close>

lemma round_bin_close:
  assumes "\<bar>x\<bar> < 2 ^ 11"
  shows "\<bar>round_bin 24 (- 126) x - x\<bar> \<le> 1 / 2 ^ 14"
proof (cases "x = 0")
  case True
  then show ?thesis by (simp add: round_bin_def)
next
  case False
  define e where "e = max (ilog2 \<bar>x\<bar>) (- 126)"
  define u :: rat where "u = 2 powi (e - (int 24 - 1))"
  have "ilog2 \<bar>x\<bar> \<le> int 11 - 1"
    by (rule ilog2_upper) (use False assms in simp_all)
  then have "e \<le> 10" by (simp add: e_def)
  then have "u \<le> 2 powi (- 13)"
    unfolding u_def by (intro power_int_increasing) simp_all
  then have u14: "u \<le> 1 / 2 ^ 13" by (simp add: power_int_minus inverse_eq_divide)
  have u0: "0 < u" by (simp add: u_def)
  have r: "round_bin 24 (- 126) x = of_int (round_even (x / u)) * u"
    using False by (simp add: round_bin_def Let_def e_def u_def)
  have "of_int (round_even (x / u)) * u - x = (of_int (round_even (x / u)) - x / u) * u"
    using u0 by (simp add: algebra_simps)
  then have "\<bar>of_int (round_even (x / u)) * u - x\<bar> = \<bar>of_int (round_even (x / u)) - x / u\<bar> * u"
    using u0 by (simp only: abs_mult abs_of_pos)
  also have "\<dots> \<le> (1 / 2) * u"
    by (intro mult_right_mono round_even_close) (use u0 in simp)
  also have "\<dots> \<le> 1 / 2 ^ 14" using u14 by simp
  finally show ?thesis by (simp add: r)
qed

lemma f32_close:
  assumes "\<bar>x\<bar> \<le> 2000"
  shows "\<exists>y. f32 x = Fin y \<and> \<bar>y - x\<bar> \<le> 1 / 16384"
proof -
  have c: "\<bar>round_bin 24 (- 126) x - x\<bar> \<le> 1 / 2 ^ 14"
    by (rule round_bin_close) (use assms in simp)
  then have "\<bar>round_bin 24 (- 126) x\<bar> \<le> 2001" using assms by (simp add: abs_le_iff abs_if split: if_splits)
  then have "\<not> FLT_MAX < \<bar>round_bin 24 (- 126) x\<bar>" by (simp add: FLT_MAX_def)
  then show ?thesis using c by (simp add: f32_def Let_def)
qed


lemma cf_times_close:
  assumes "\<bar>x\<bar> \<le> 450" "\<bar>k\<bar> \<le> 1"
  shows "\<exists>z. Fin x * Fin k = Fin z \<and> \<bar>z - x * k\<bar> \<le> 1 / 16384 \<and> \<bar>x * k\<bar> \<le> 450"
proof -
  have "\<bar>x\<bar> * \<bar>k\<bar> \<le> 450 * 1"
    by (intro mult_mono assms) simp_all
  then have b: "\<bar>x * k\<bar> \<le> 450" by (simp add: abs_mult)
  then have "\<bar>x * k\<bar> \<le> 2000" by simp
  from f32_close [OF this] b show ?thesis by (simp add: times_cfloat_def)
qed

lemma cf_plus_close:
  assumes "\<bar>x + y\<bar> \<le> 2000"
  shows "\<exists>z. Fin x + Fin y = Fin z \<and> \<bar>z - (x + y)\<bar> \<le> 1 / 16384"
  using f32_close [OF assms] by (simp add: plus_cfloat_def)

lemma dot3_close:
  assumes "\<bar>x1\<bar> \<le> 450" "\<bar>x2\<bar> \<le> 450" "\<bar>x3\<bar> \<le> 450" "\<bar>k1\<bar> \<le> 1" "\<bar>k2\<bar> \<le> 1" "\<bar>k3\<bar> \<le> 1"
  shows "\<exists>z. Fin x1 * Fin k1 + Fin x2 * Fin k2 + Fin x3 * Fin k3 = Fin z \<and>
             \<bar>z - (x1 * k1 + x2 * k2 + x3 * k3)\<bar> \<le> 5 / 16384"
proof -
  from cf_times_close [OF assms(1,4)] obtain z1 where
    z1: "Fin x1 * Fin k1 = Fin z1" "\<bar>z1 - x1 * k1\<bar> \<le> 1 / 16384" "\<bar>x1 * k1\<bar> \<le> 450" by blast
  from cf_times_close [OF assms(2,5)] obtain z2 where
    z2: "Fin x2 * Fin k2 = Fin z2" "\<bar>z2 - x2 * k2\<bar> \<le> 1 / 16384" "\<bar>x2 * k2\<bar> \<le> 450" by blast
  from cf_times_close [OF assms(3,6)] obtain z3 where
    z3: "Fin x3 * Fin k3 = Fin z3" "\<bar>z3 - x3 * k3\<bar> \<le> 1 / 16384" "\<bar>x3 * k3\<bar> \<le> 450" by blast
  have "\<bar>z1 + z2\<bar> \<le> 2000" using z1 z2 by linarith
  from cf_plus_close [OF this] obtain s1 where
    s1: "Fin z1 + Fin z2 = Fin s1" "\<bar>s1 - (z1 + z2)\<bar> \<le> 1 / 16384" by blast
  have "\<bar>s1 + z3\<bar> \<le> 2000" using z1 z2 z3 s1 by linarith
  from cf_plus_close [OF this] obtain s2 where
    s2: "Fin s1 + Fin z3 = Fin s2" "\<bar>s2 - (s1 + z3)\<bar> \<le> 1 / 16384" by blast
  have "\<bar>s2 - (x1 * k1 + x2 * k2 + x3 * k3)\<bar> \<le> 5 / 16384"
    using z1(2) z2(2) z3(2) s1(2) s2(2) by linarith
  then show ?thesis by (simp add: z1 z2 z3 s1 s2)
qed

lemma dot2_close:
  assumes "\<bar>x1\<bar> \<le> 450" "\<bar>x2\<bar> \<le> 450" "\<bar>k1\<bar> \<le> 1" "\<bar>k2\<bar> \<le> 1"
  shows "\<exists>z. Fin x1 * Fin k1 + Fin x2 * Fin k2 = Fin z \<and> \<bar>z - (x1 * k1 + x2 * k2)\<bar> \<le> 3 / 16384"
proof -
  from cf_times_close [OF assms(1,3)] obtain z1 where
    z1: "Fin x1 * Fin k1 = Fin z1" "\<bar>z1 - x1 * k1\<bar> \<le> 1 / 16384" "\<bar>x1 * k1\<bar> \<le> 450" by blast
  from cf_times_close [OF assms(2,4)] obtain z2 where
    z2: "Fin x2 * Fin k2 = Fin z2" "\<bar>z2 - x2 * k2\<bar> \<le> 1 / 16384" "\<bar>x2 * k2\<bar> \<le> 450" by blast
  have "\<bar>z1 + z2\<bar> \<le> 2000" using z1 z2 by linarith
  from cf_plus_close [OF this] obtain s1 where
    s1: "Fin z1 + Fin z2 = Fin s1" "\<bar>s1 - (z1 + z2)\<bar> \<le> 1 / 16384" by blast
  have "\<bar>s1 - (x1 * k1 + x2 * k2)\<bar> \<le> 3 / 16384"
    using z1(2) z2(2) s1(2) by linarith
  then show ?thesis by (simp add: z1 z2 s1)
qed

subsection \<open>One pixel through the matrix and its transpose\<close>

lemma DCT3X3_values:
  "DCT3X3_0_0 = Fin (4843165 / 8388608)" "DCT3X3_0_1 = Fin (4843165 / 8388608)"
  "DCT3X3_0_2 = Fin (4843165 / 8388608)" "DCT3X3_1_0 = Fin (11863283 / 16777216)"
  "DCT3X3_1_2 = Fin (- (11863283 / 16777216))" "DCT3X3_2_0 = Fin (3424635 / 8388608)"
  "DCT3X3_2_1 = Fin (- (3424635 / 4194304))" "DCT3X3_2_2 = Fin (3424635 / 8388608)"
  by (simp_all add: DCT3X3_0_0_def DCT3X3_0_1_def DCT3X3_0_2_def DCT3X3_1_0_def DCT3X3_1_2_def
      DCT3X3_2_0_def DCT3X3_2_1_def DCT3X3_2_2_def float_eval split del: if_split)

lemma f_of_int_byte:
  "\<exists>y. f_of_int (uint (p :: 8 word)) = Fin y \<and> \<bar>y - of_int (uint p)\<bar> \<le> 1 / 16384 \<and>
       0 \<le> uint p \<and> uint p \<le> 255"
proof -
  define k where "k = uint p"
  have b: "0 \<le> k" "k \<le> 255"
    using uint_lt2p [of p] by (simp_all add: k_def)
  then have "(of_int k :: rat) \<le> of_int 255" "(0 :: rat) \<le> of_int k"
    by (simp_all only: of_int_le_iff of_int_0_le_iff)
  then have "\<bar>of_int k :: rat\<bar> \<le> 2000" by simp
  from f32_close [OF this] b have
    "\<exists>y. f_of_int k = Fin y \<and> \<bar>y - of_int k\<bar> \<le> 1 / 16384 \<and> 0 \<le> k \<and> k \<le> 255"
    by (simp add: f_of_int_def)
  then show ?thesis unfolding k_def .
qed

lemma clip_float_close:
  assumes "\<bar>z - of_int k\<bar> < 1" "0 \<le> k" "k \<le> 255"
  shows "\<exists>q. clip_float (Fin z) = Some q \<and> k - 1 \<le> uint q \<and> uint q \<le> k"
proof -
  have t: "0 \<le> c_trunc z \<and> k - 1 \<le> c_trunc z \<and> c_trunc z \<le> k"
  proof (cases "0 \<le> z")
    case True
    have "of_int (k - 1) \<le> z" "z < of_int (k + 1)" using assms(1) by (simp_all add: abs_less_iff)
    then have "k - 1 \<le> \<lfloor>z\<rfloor>" "\<lfloor>z\<rfloor> < k + 1"
      by (simp_all only: le_floor_iff floor_less_iff)
    moreover have "0 \<le> \<lfloor>z\<rfloor>" using True by simp
    ultimately show ?thesis using True by (simp add: c_trunc_def)
  next
    case False
    then have "of_int k < (1::rat)" using assms(1) by (simp add: abs_less_iff)
    then have k: "k = 0" using assms(2) by simp
    then have "- 1 < z" using assms(1) by (simp add: abs_less_iff)
    then have "\<lceil>z\<rceil> = 0" using False by (simp add: ceiling_eq_iff)
    then show ?thesis using False k by (simp add: c_trunc_def)
  qed
  then have i: "int_of_cfloat (Fin z) = Some (c_trunc z)"
    using assms(3) by (simp add: int_of_cfloat_def Let_def)
  have "uint (av_clip_uint8 (c_trunc z)) = c_trunc z"
    using t assms(3) by (simp add: av_clip_uint8_def uint_word_of_int take_bit_eq_mod)
  with t i show ?thesis by (simp add: clip_float_def)
qed


lemma pixel_round_trip:
  "\<exists>sr sg sb qr qg qb. decorrelate_pixel pr pg pb = (sr, sg, sb) \<and>
     correlate_pixel sr sg sb = Some (qr, qg, qb) \<and>
     uint pr - 1 \<le> uint qr \<and> uint qr \<le> uint pr \<and>
     uint pg - 1 \<le> uint qg \<and> uint qg \<le> uint pg \<and>
     uint pb - 1 \<le> uint qb \<and> uint qb \<le> uint pb"
proof -
  define r g b :: rat where "r = of_int (uint pr)" and "g = of_int (uint pg)" and "b = of_int (uint pb)"
  from f_of_int_byte [of pr] obtain yr where
    yr: "f_of_int (uint pr) = Fin yr" and yr': "\<bar>yr - r\<bar> \<le> 1 / 16384"
    and ir: "0 \<le> uint pr" "uint pr \<le> 255" unfolding r_def by blast
  from f_of_int_byte [of pg] obtain yg where
    yg: "f_of_int (uint pg) = Fin yg" and yg': "\<bar>yg - g\<bar> \<le> 1 / 16384"
    and ig: "0 \<le> uint pg" "uint pg \<le> 255" unfolding g_def by blast
  from f_of_int_byte [of pb] obtain yb where
    yb: "f_of_int (uint pb) = Fin yb" and yb': "\<bar>yb - b\<bar> \<le> 1 / 16384"
    and ib: "0 \<le> uint pb" "uint pb \<le> 255" unfolding b_def by blast
  have "0 \<le> r \<and> r \<le> of_int 255" "0 \<le> g \<and> g \<le> of_int 255" "0 \<le> b \<and> b \<le> of_int 255"
    unfolding r_def g_def b_def using ir ig ib by (simp_all only: of_int_le_iff of_int_0_le_iff)
  then have rng: "0 \<le> r" "r \<le> 255" "0 \<le> g" "g \<le> 255" "0 \<le> b" "b \<le> 255" by simp_all
  note y = yr' [unfolded abs_le_iff] yg' [unfolded abs_le_iff] yb' [unfolded abs_le_iff]
  have ya: "\<bar>yr\<bar> \<le> 450" "\<bar>yg\<bar> \<le> 450" "\<bar>yb\<bar> \<le> 450"
    using y rng by (simp_all only: abs_le_iff) linarith+
  have k: "\<bar>4843165 / 8388608 :: rat\<bar> \<le> 1" "\<bar>11863283 / 16777216 :: rat\<bar> \<le> 1"
    "\<bar>- (11863283 / 16777216) :: rat\<bar> \<le> 1" "\<bar>3424635 / 8388608 :: rat\<bar> \<le> 1"
    "\<bar>- (3424635 / 4194304) :: rat\<bar> \<le> 1" by simp_all
  from dot3_close [OF ya(1) ya(2) ya(3) k(1) k(1) k(1)] obtain R where
    R: "Fin yr * Fin (4843165 / 8388608) + Fin yg * Fin (4843165 / 8388608) + Fin yb * Fin (4843165 / 8388608) = Fin R"
    and R': "\<bar>R - (yr * (4843165 / 8388608) + yg * (4843165 / 8388608) + yb * (4843165 / 8388608))\<bar> \<le> 5 / 16384"
    by blast
  from dot2_close [OF ya(1) ya(3) k(2) k(3)] obtain G where
    G: "Fin yr * Fin (11863283 / 16777216) + Fin yb * Fin (- (11863283 / 16777216)) = Fin G"
    and G': "\<bar>G - (yr * (11863283 / 16777216) + yb * (- (11863283 / 16777216)))\<bar> \<le> 3 / 16384"
    by blast
  from dot3_close [OF ya(1) ya(2) ya(3) k(4) k(5) k(4)] obtain B where
    B: "Fin yr * Fin (3424635 / 8388608) + Fin yg * Fin (- (3424635 / 4194304)) + Fin yb * Fin (3424635 / 8388608) = Fin B"
    and B': "\<bar>B - (yr * (3424635 / 8388608) + yg * (- (3424635 / 4194304)) + yb * (3424635 / 8388608))\<bar> \<le> 5 / 16384"
    by blast
  have dec: "decorrelate_pixel pr pg pb = (Fin R, Fin G, Fin B)"
    by (simp only: decorrelate_pixel_def DCT3X3_values yr yg yb R G B)
  note s = R' [unfolded abs_le_iff] G' [unfolded abs_le_iff] B' [unfolded abs_le_iff]
  have sa: "\<bar>R\<bar> \<le> 450" "\<bar>G\<bar> \<le> 450" "\<bar>B\<bar> \<le> 450"
    using y s rng by (simp_all only: abs_le_iff) linarith+
  from dot3_close [OF sa(1) sa(2) sa(3) k(1) k(2) k(4)] obtain zr where
    zr: "Fin R * Fin (4843165 / 8388608) + Fin G * Fin (11863283 / 16777216) + Fin B * Fin (3424635 / 8388608) = Fin zr"
    and zr': "\<bar>zr - (R * (4843165 / 8388608) + G * (11863283 / 16777216) + B * (3424635 / 8388608))\<bar> \<le> 5 / 16384"
    by blast
  from dot2_close [OF sa(1) sa(3) k(1) k(5)] obtain zg where
    zg: "Fin R * Fin (4843165 / 8388608) + Fin B * Fin (- (3424635 / 4194304)) = Fin zg"
    and zg': "\<bar>zg - (R * (4843165 / 8388608) + B * (- (3424635 / 4194304)))\<bar> \<le> 3 / 16384"
    by blast
  from dot3_close [OF sa(1) sa(2) sa(3) k(1) k(3) k(4)] obtain zb where
    zb: "Fin R * Fin (4843165 / 8388608) + Fin G * Fin (- (11863283 / 16777216)) + Fin B * Fin (3424635 / 8388608) = Fin zb"
    and zb': "\<bar>zb - (R * (4843165 / 8388608) + G * (- (11863283 / 16777216)) + B * (3424635 / 8388608))\<bar> \<le> 5 / 16384"
    by blast
  note z = zr' [unfolded abs_le_iff] zg' [unfolded abs_le_iff] zb' [unfolded abs_le_iff]
  have "zr - r < 1 \<and> - (zr - r) < 1" using y s z(1) rng by linarith
  then have cr: "\<bar>zr - of_int (uint pr)\<bar> < 1" by (simp only: abs_less_iff r_def)
  have "zg - g < 1 \<and> - (zg - g) < 1" using y s z(2) rng by linarith
  then have cg: "\<bar>zg - of_int (uint pg)\<bar> < 1" by (simp only: abs_less_iff g_def)
  have "zb - b < 1 \<and> - (zb - b) < 1" using y s z(3) rng by linarith
  then have cb: "\<bar>zb - of_int (uint pb)\<bar> < 1" by (simp only: abs_less_iff b_def)
  from clip_float_close [OF cr ir] obtain qr where
    qr: "clip_float (Fin zr) = Some qr" "uint pr - 1 \<le> uint qr" "uint qr \<le> uint pr" by blast
  from clip_float_close [OF cg ig] obtain qg where
    qg: "clip_float (Fin zg) = Some qg" "uint pg - 1 \<le> uint qg" "uint qg \<le> uint pg" by blast
  from clip_float_close [OF cb ib] obtain qb where
    qb: "clip_float (Fin zb) = Some qb" "uint pb - 1 \<le> uint qb" "uint qb \<le> uint pb" by blast
  have "correlate_pixel (Fin R) (Fin G) (Fin B) = Some (qr, qg, qb)"
    by (simp only: correlate_pixel_def DCT3X3_values zr zg zb qr(1) qg(1) qb(1) option.case)
  with dec qr qg qb show ?thesis by blast
qed

lemma pixel_111:
  "decorrelate_pixel 1 1 1 = (Fin (14529495 / 8388608), Fin 0, Fin 0)"
  "correlate_pixel (Fin (14529495 / 8388608)) (Fin 0) (Fin 0) = Some (0, 0, 0)"
  by (simp_all add: decorrelate_pixel_def correlate_pixel_def DCT3X3_values clip_float_def
      int_of_cfloat_def c_trunc_def av_clip_uint8_def f_of_int_def float_eval split del: if_split)


subsection \<open>Whole frames\<close>

lemma fold_updates_notin:
  assumes "\<And>k d. k \<in> set ks \<Longrightarrow> i \<notin> S k \<Longrightarrow> get (U k d) i = get d i"
    and "\<And>k. k \<in> set ks \<Longrightarrow> i \<notin> S k"
  shows "get (fold U ks d) i = get d i"
  using assms by (induction ks arbitrary: d) simp_all

lemma fold_updates_at:
  assumes fr: "\<And>k d i. k \<in> set ks \<Longrightarrow> i \<notin> S k \<Longrightarrow> get (U k d) i = get d i"
    and wr: "\<And>k d i. k \<in> set ks \<Longrightarrow> i \<in> S k \<Longrightarrow> get (U k d) i = V k i"
    and dj: "\<And>k k'. k \<in> set ks \<Longrightarrow> k' \<in> set ks \<Longrightarrow> k' \<noteq> k \<Longrightarrow> S k' \<inter> S k = {}"
    and "k \<in> set ks" "i \<in> S k"
  shows "get (fold U ks d) i = V k i"
  using assms
proof (induction ks arbitrary: d)
  case Nil
  then show ?case by simp
next
  case (Cons a ks)
  show ?case
  proof (cases "k \<in> set ks")
    case True
    have "get (fold U ks (U a d)) i = V k i"
      by (rule Cons.IH) (use Cons.prems True in \<open>simp_all\<close>)
    then show ?thesis by simp
  next
    case False
    then have ak: "a = k" using Cons.prems(4) by simp
    have "get (fold U ks (U a d)) i = get (U a d) i"
    proof (rule fold_updates_notin [where S = S])
      fix k' d' assume "k' \<in> set ks" "i \<notin> S k'"
      then show "get (U k' d') i = get d' i" using Cons.prems(1) by simp
    next
      fix k' assume k': "k' \<in> set ks"
      then have "k' \<noteq> k" using False by blast
      then have "S k' \<inter> S k = {}" using Cons.prems(3) [of k k'] k' ak by simp
      then show "i \<notin> S k'" using Cons.prems(5) by blast
    qed
    also have "\<dots> = V k i" using Cons.prems(2) [of a i d] Cons.prems(5) ak by simp
    finally show ?thesis by simp
  qed
qed

lemma fold_Inr:
  assumes "\<And>k d. k \<in> set ks \<Longrightarrow> F k (Inr d) = Inr (U k d)"
  shows "fold F ks (Inr d) = Inr (fold U ks d)"
  using assms by (induction ks arbitrary: d) simp_all

lemma color_decorrelation_at:
  assumes rg: "0 \<le> y" "y < h" "0 \<le> x" "x < w" and pl: "w \<le> pl"
    and dec: "color_decorrelation pls pl src sl w h r g b = (A, B, C)"
  shows "(A (y * pl + x), B (y * pl + x), C (y * pl + x)) =
     decorrelate_pixel (src (y * sl + 3 * x + r)) (src (y * sl + 3 * x + g)) (src (y * sl + 3 * x + b))"
proof -
  let ?ks = "List.product [0..h - 1] [0..w - 1]"
  define U where "U = (\<lambda>(y, x) (dstp_r, dstp_g, dstp_b).
                     let srcp = y * sl + 3 * x;
                         (vr, vg, vb) = decorrelate_pixel (src (srcp + r)) (src (srcp + g)) (src (srcp + b))
                     in (dstp_r(y * pl + x := vr),
                         dstp_g(y * pl + x := vg),
                         dstp_b(y * pl + x := vb)))"
  define D where "D = (\<lambda>(y, x). decorrelate_pixel (src (y * sl + 3 * x + r)) (src (y * sl + 3 * x + g))
                     (src (y * sl + 3 * x + b)))"
  define idx where "idx = (\<lambda>(y :: int, x :: int). y * pl + x)"
  have flat: "color_decorrelation pls pl src sl w h r g b = fold U ?ks pls"
    unfolding color_decorrelation_def U_def by (rule fold_nested)
  have U': "U k d = ((fst d) (idx k := fst (D k)), (fst (snd d)) (idx k := fst (snd (D k))),
                     (snd (snd d)) (idx k := snd (snd (D k))))" for k d
    by (simp add: U_def D_def idx_def split_beta Let_def)
  have dj: "{idx k'} \<inter> {idx k} = {}" if "k \<in> set ?ks" "k' \<in> set ?ks" "k' \<noteq> k" for k k'
  proof -
    obtain y1 x1 y2 x2 where k: "k = (y1, x1)" "k' = (y2, x2)" by (cases k, cases k') blast
    have "idx k' \<noteq> idx k"
    proof
      assume "idx k' = idx k"
      then have "y2 * pl + x2 = y1 * pl + x1" by (simp add: idx_def k)
      moreover have "0 \<le> x1" "x1 < pl" "0 \<le> x2" "x2 < pl" using that(1,2) pl by (simp_all add: k)
      ultimately have "y2 = y1 \<and> x2 = x1" by (intro lin_idx_inj)
      then show False using that(3) by (simp add: k)
    qed
    then show ?thesis by simp
  qed
  have mem: "(y, x) \<in> set ?ks" using rg by simp
  have "fst (fold U ?ks pls) (idx (y, x)) = fst (D (y, x))"
    by (rule fold_updates_at [where S = "\<lambda>k. {idx k}" and V = "\<lambda>k i. fst (D k)", OF _ _ dj mem])
      (simp_all add: U')
  moreover have "fst (snd (fold U ?ks pls)) (idx (y, x)) = fst (snd (D (y, x)))"
    by (rule fold_updates_at [where S = "\<lambda>k. {idx k}" and V = "\<lambda>k i. fst (snd (D k))"
          and get = "\<lambda>s. fst (snd s)", OF _ _ dj mem])
      (simp_all add: U')
  moreover have "snd (snd (fold U ?ks pls)) (idx (y, x)) = snd (snd (D (y, x)))"
    by (rule fold_updates_at [where S = "\<lambda>k. {idx k}" and V = "\<lambda>k i. snd (snd (D k))"
          and get = "\<lambda>s. snd (snd s)", OF _ _ dj mem])
      (simp_all add: U')
  ultimately have "(A (idx (y, x)), B (idx (y, x)), C (idx (y, x))) = D (y, x)"
    using dec by (simp add: flat [symmetric] prod_eq_iff)
  then show ?thesis by (simp add: idx_def D_def)
qed


lemma color_correlation_at:
  assumes dl: "3 * w \<le> dl"
    and ch: "0 \<le> r" "r \<le> 2" "0 \<le> g" "g \<le> 2" "0 \<le> b" "b \<le> 2" "r \<noteq> g" "r \<noteq> b" "g \<noteq> b"
    and Q: "\<And>y x. 0 \<le> y \<Longrightarrow> y < h \<Longrightarrow> 0 \<le> x \<Longrightarrow> x < w \<Longrightarrow>
               correlate_pixel (A (y * pl + x)) (B (y * pl + x)) (C (y * pl + x)) = Some (Q y x)"
  shows "\<exists>out. color_correlation dst dl (A, B, C) pl w h r g b = Inr out \<and>
     (\<forall>y x. 0 \<le> y \<and> y < h \<and> 0 \<le> x \<and> x < w \<longrightarrow>
        (out (y * dl + 3 * x + r), out (y * dl + 3 * x + g), out (y * dl + 3 * x + b)) = Q y x)"
proof -
  let ?ks = "List.product [0..h - 1] [0..w - 1]"
  define F where "F = (\<lambda>(y, x) acc.
                     case acc of
                       Inl e \<Rightarrow> Inl e
                     | Inr dst \<Rightarrow>
                         (let dstp = y * dl + 3 * x;
                              (src_r, src_g, src_b) = (A, B, C)
                          in case correlate_pixel (src_r (y * pl + x)) (src_g (y * pl + x))
                                    (src_b (y * pl + x)) of
                               None \<Rightarrow> Inl Undefined
                             | Some (vr, vg, vb) \<Rightarrow> Inr (dst(dstp + r := vr, dstp + g := vg, dstp + b := vb))))"
  define p where "p = (\<lambda>(y :: int, x :: int). y * dl + 3 * x)"
  define U where "U = (\<lambda>k d. case k of (y, x) \<Rightarrow> (case Q y x of (vr, vg, vb) \<Rightarrow>
                         d(p k + r := vr, p k + g := vg, p k + b := vb)))"
  define S where "S = (\<lambda>k. {p k + r, p k + g, p k + b})"
  define V where "V = (\<lambda>k i. case k of (y, x) \<Rightarrow> (case Q y x of (vr, vg, vb) \<Rightarrow>
                         if i = p k + b then vb else if i = p k + g then vg else vr))"
  have flat: "color_correlation dst dl (A, B, C) pl w h r g b = fold F ?ks (Inr dst)"
    unfolding color_correlation_def F_def by (rule fold_nested)
  have "F k (Inr d) = Inr (U k d)" if "k \<in> set ?ks" for k d
  proof -
    obtain y x where k: "k = (y, x)" by (cases k)
    have "correlate_pixel (A (y * pl + x)) (B (y * pl + x)) (C (y * pl + x)) = Some (Q y x)"
      using that by (intro Q) (simp_all add: k)
    then show ?thesis by (simp add: F_def U_def p_def k split_beta Let_def)
  qed
  then have inr: "fold F ?ks (Inr dst) = Inr (fold U ?ks dst)" by (rule fold_Inr)
  have dj: "S k' \<inter> S k = {}" if "k \<in> set ?ks" "k' \<in> set ?ks" "k' \<noteq> k" for k k'
  proof -
    obtain y1 x1 y2 x2 where k: "k = (y1, x1)" "k' = (y2, x2)" by (cases k, cases k') blast
    have x: "0 \<le> x1" "x1 < w" "0 \<le> x2" "x2 < w" using that(1,2) by (simp_all add: k)
    have "y2 * dl + (3 * x2 + c') \<noteq> y1 * dl + (3 * x1 + c)"
      if c: "0 \<le> c" "c \<le> 2" "0 \<le> c'" "c' \<le> 2" for c c' :: int
    proof
      assume e: "y2 * dl + (3 * x2 + c') = y1 * dl + (3 * x1 + c)"
      have "y2 = y1 \<and> 3 * x2 + c' = 3 * x1 + c"
        by (rule lin_idx_inj [OF _ _ _ _ e]) (use x c dl in linarith)+
      then have "y2 = y1 \<and> x2 = x1" using c by presburger
      then show False using \<open>k' \<noteq> k\<close> by (simp add: k)
    qed
    then have ne: "p k' + c' \<noteq> p k + c" if "0 \<le> c" "c \<le> 2" "0 \<le> c'" "c' \<le> 2" for c c'
      using that by (simp add: p_def k add.assoc)
    have "\<exists>c. 0 \<le> c \<and> c \<le> 2 \<and> i = p k0 + c" if "i \<in> S k0" for i k0
    proof -
      from that have "i = p k0 + r \<or> i = p k0 + g \<or> i = p k0 + b" by (simp add: S_def)
      then show ?thesis using ch(1-6) by (elim disjE) (intro exI conjI; assumption)+
    qed
    then have "i \<noteq> j" if "i \<in> S k'" "j \<in> S k" for i j
      using ne that by (metis (full_types))
    then show ?thesis by (simp only: disjoint_iff) blast
  qed
  have at: "fold U ?ks dst i = V (y, x) i" if "0 \<le> y" "y < h" "0 \<le> x" "x < w" "i \<in> S (y, x)" for y x i
  proof (rule fold_updates_at [where S = S and get = "\<lambda>d. d", OF _ _ dj _ that(5)])
    show "(y, x) \<in> set ?ks" using that by simp
  qed (auto simp add: U_def V_def S_def split_beta)
  have "(fold U ?ks dst (y * dl + 3 * x + r), fold U ?ks dst (y * dl + 3 * x + g),
         fold U ?ks dst (y * dl + 3 * x + b)) = Q y x" if "0 \<le> y" "y < h" "0 \<le> x" "x < w" for y x
  proof -
    have "fold U ?ks dst (p (y, x) + r) = V (y, x) (p (y, x) + r)"
      "fold U ?ks dst (p (y, x) + g) = V (y, x) (p (y, x) + g)"
      "fold U ?ks dst (p (y, x) + b) = V (y, x) (p (y, x) + b)"
      using that by (simp_all add: at S_def)
    then show ?thesis using ch(7-9) by (simp add: V_def p_def split_beta)
  qed
  then show ?thesis by (simp add: flat inr)
qed

lemma color_round_trip_order:
  assumes pl: "w \<le> pl" and dl: "3 * w \<le> dl"
    and ch: "0 \<le> r" "r \<le> 2" "0 \<le> g" "g \<le> 2" "0 \<le> b" "b \<le> 2" "r \<noteq> g" "r \<noteq> b" "g \<noteq> b"
  shows "\<exists>out. color_correlation dst dl (color_decorrelation pls pl src sl w h r g b) pl w h r g b = Inr out \<and>
     (\<forall>y x c. 0 \<le> y \<and> y < h \<and> 0 \<le> x \<and> x < w \<and> 0 \<le> c \<and> c \<le> 2 \<longrightarrow>
        uint (src (y * sl + 3 * x + c)) - 1 \<le> uint (out (y * dl + 3 * x + c)) \<and>
        uint (out (y * dl + 3 * x + c)) \<le> uint (src (y * sl + 3 * x + c)))"
proof -
  obtain A B C where dec: "color_decorrelation pls pl src sl w h r g b = (A, B, C)"
    by (cases "color_decorrelation pls pl src sl w h r g b")
  define Q where "Q = (\<lambda>y x. the (correlate_pixel (A (y * pl + x)) (B (y * pl + x)) (C (y * pl + x))))"
  have px: "\<exists>qr qg qb. correlate_pixel (A (y * pl + x)) (B (y * pl + x)) (C (y * pl + x)) = Some (qr, qg, qb) \<and>
      uint (src (y * sl + 3 * x + r)) - 1 \<le> uint qr \<and> uint qr \<le> uint (src (y * sl + 3 * x + r)) \<and>
      uint (src (y * sl + 3 * x + g)) - 1 \<le> uint qg \<and> uint qg \<le> uint (src (y * sl + 3 * x + g)) \<and>
      uint (src (y * sl + 3 * x + b)) - 1 \<le> uint qb \<and> uint qb \<le> uint (src (y * sl + 3 * x + b))"
    if "0 \<le> y" "y < h" "0 \<le> x" "x < w" for y x
    using pixel_round_trip [of "src (y * sl + 3 * x + r)" "src (y * sl + 3 * x + g)" "src (y * sl + 3 * x + b)"]
      color_decorrelation_at [OF that pl dec] by auto
  have "correlate_pixel (A (y * pl + x)) (B (y * pl + x)) (C (y * pl + x)) = Some (Q y x)"
    if "0 \<le> y" "y < h" "0 \<le> x" "x < w" for y x
    using px [OF that] by (auto simp add: Q_def)
  from color_correlation_at [where A = A and B = B and C = C and Q = Q and pl = pl and h = h
      and dst = dst, OF dl ch this] obtain out where
    out: "color_correlation dst dl (A, B, C) pl w h r g b = Inr out"
    and at: "\<And>y x. 0 \<le> y \<Longrightarrow> y < h \<Longrightarrow> 0 \<le> x \<Longrightarrow> x < w \<Longrightarrow>
        (out (y * dl + 3 * x + r), out (y * dl + 3 * x + g), out (y * dl + 3 * x + b)) = Q y x"
    by blast
  have "uint (src (y * sl + 3 * x + c)) - 1 \<le> uint (out (y * dl + 3 * x + c)) \<and>
        uint (out (y * dl + 3 * x + c)) \<le> uint (src (y * sl + 3 * x + c))"
    if "0 \<le> y" "y < h" "0 \<le> x" "x < w" "0 \<le> c" "c \<le> 2" for y x c
  proof -
    from px [OF that(1-4)] obtain qr qg qb where
      q: "correlate_pixel (A (y * pl + x)) (B (y * pl + x)) (C (y * pl + x)) = Some (qr, qg, qb)"
      "uint (src (y * sl + 3 * x + r)) - 1 \<le> uint qr" "uint qr \<le> uint (src (y * sl + 3 * x + r))"
      "uint (src (y * sl + 3 * x + g)) - 1 \<le> uint qg" "uint qg \<le> uint (src (y * sl + 3 * x + g))"
      "uint (src (y * sl + 3 * x + b)) - 1 \<le> uint qb" "uint qb \<le> uint (src (y * sl + 3 * x + b))"
      by blast
    then have "Q y x = (qr, qg, qb)" by (simp add: Q_def)
    with at [OF that(1-4)] have o: "out (y * dl + 3 * x + r) = qr" "out (y * dl + 3 * x + g) = qg"
      "out (y * dl + 3 * x + b) = qb" by simp_all
    have "c = r \<or> c = g \<or> c = b" using ch that(5,6) by presburger
    then show ?thesis using q(2-7) o by auto
  qed
  then show ?thesis using out by (simp add: dec)
qed

text \<open>
  C5, as stated: the round trip reproduces every pixel exactly. It does not: the three bytes
  \<open>(1, 1, 1)\<close> decorrelate to \<open>(14529495 / 8388608, 0, 0)\<close>, the first component being
  the binary32 value just below \<open>sqrt 3\<close>, and \<open>color_correlation\<close> multiplies it by the
  binary32 value just below \<open>1 / sqrt 3\<close>, obtains a float below 1 and hands it to
  \<open>av_clip_uint8\<close>, whose \<open>int\<close> parameter truncates it to 0. The frame below has one pixel,
  every byte of the source is 1 and every byte of the destination is 255 beforehand; both channel
  orders write \<open>(0, 0, 0)\<close>.
\<close>

theorem color_round_trip_counterexample:
  "call_color_correlation Color_rgb (\<lambda>i. 255) 3
     (call_color_decorrelation Color_rgb (\<lambda>i. Fin 0, \<lambda>i. Fin 0, \<lambda>i. Fin 0) 1 (\<lambda>i. 1) 3 1 1) 1 1 1
     = Inr ((\<lambda>i. 255)(0 := 0, 1 := 0, 2 := 0)) \<and>
   call_color_correlation Color_bgr (\<lambda>i. 255) 3
     (call_color_decorrelation Color_bgr (\<lambda>i. Fin 0, \<lambda>i. Fin 0, \<lambda>i. Fin 0) 1 (\<lambda>i. 1) 3 1 1) 1 1 1
     = Inr ((\<lambda>i. 255)(2 := 0, 1 := 0, 0 := 0))"
  by (simp add: call_color_correlation_def call_color_decorrelation_def color_correlation_rgb_def
      color_correlation_bgr_def color_decorrelation_rgb_def color_decorrelation_bgr_def
      color_correlation_def color_decorrelation_def pixel_111)

text \<open>
  C5, amended: for both channel orders and every frame of \<open>w\<close> by \<open>h\<close> pixels whose planes hold
  at least \<open>w\<close> floats per line and whose destination holds at least \<open>3 * w\<close> bytes per line,
  \<open>color_correlation\<close> applied to the planes written by \<open>color_decorrelation\<close> succeeds, and
  every byte it writes is the source byte or the source byte minus one: the round trip reproduces
  the pixel up to one unit at 8-bit precision, the float result being truncated, not rounded.
\<close>

theorem color_round_trip:
  assumes "w \<le> pl" and "3 * w \<le> dl"
  shows "\<exists>out. call_color_correlation cf dst dl (call_color_decorrelation cf pls pl src sl w h) pl w h = Inr out \<and>
     (\<forall>y x c. 0 \<le> y \<and> y < h \<and> 0 \<le> x \<and> x < w \<and> 0 \<le> c \<and> c \<le> 2 \<longrightarrow>
        uint (src (y * sl + 3 * x + c)) - 1 \<le> uint (out (y * dl + 3 * x + c)) \<and>
        uint (out (y * dl + 3 * x + c)) \<le> uint (src (y * sl + 3 * x + c)))"
proof (cases cf)
  case Color_rgb
  show ?thesis
    unfolding Color_rgb call_color_correlation_def call_color_decorrelation_def color_func.case
      color_correlation_rgb_def color_decorrelation_rgb_def
    by (rule color_round_trip_order [OF assms]) simp_all
next
  case Color_bgr
  show ?thesis
    unfolding Color_bgr call_color_correlation_def call_color_decorrelation_def color_func.case
      color_correlation_bgr_def color_decorrelation_bgr_def
    by (rule color_round_trip_order [OF assms]) simp_all
qed

theorem color_round_trip_witness:
  "(1 :: int) \<le> 1 \<and> 3 * (1 :: int) \<le> 3 \<and>
   (\<exists>out. call_color_correlation Color_bgr (\<lambda>i. 255) 3
      (call_color_decorrelation Color_bgr (\<lambda>i. Fin 0, \<lambda>i. Fin 0, \<lambda>i. Fin 0) 1 (\<lambda>i. 200) 3 1 1) 1 1 1
      = Inr out \<and> 199 \<le> uint (out 0) \<and> uint (out 0) \<le> 200)"
proof -
  have h: "(1 :: int) \<le> 1" "3 * (1 :: int) \<le> 3" by simp_all
  from color_round_trip [OF h, where cf = Color_bgr and dst = "\<lambda>i. 255"
      and pls = "(\<lambda>i. Fin 0, \<lambda>i. Fin 0, \<lambda>i. Fin 0)" and src = "\<lambda>i. 200" and sl = 3 and h = 1]
  obtain out where
    o: "call_color_correlation Color_bgr (\<lambda>i. 255) 3
      (call_color_decorrelation Color_bgr (\<lambda>i. Fin 0, \<lambda>i. Fin 0, \<lambda>i. Fin 0) 1 (\<lambda>i. 200) 3 1 1) 1 1 1
      = Inr out"
    and a: "\<forall>y x c. 0 \<le> y \<and> y < 1 \<and> 0 \<le> x \<and> x < 1 \<and> 0 \<le> c \<and> c \<le> 2 \<longrightarrow>
        uint (200 :: 8 word) - 1 \<le> uint (out (y * 3 + 3 * x + c)) \<and>
        uint (out (y * 3 + 3 * x + c)) \<le> uint (200 :: 8 word)"
    by blast
  from a [rule_format, of 0 0 0] have "199 \<le> uint (out 0) \<and> uint (out 0) \<le> 200" by simp
  with o h show ?thesis by blast
qed
section \<open>The one-dimensional transforms: forward then inverse\<close>

subsection \<open>Rounding error of one binary32 or binary64 operation\<close>

text \<open>
  Rounding to \<open>p\<close> bits moves a value of magnitude at most \<open>2 ^ m\<close> by at most
  \<open>2 ^ m / 2 ^ p\<close>. The lemmas below bound the error of each shape of expression that occurs
  in the butterflies, for operands of magnitude at most \<open>64 * S\<close> with \<open>S = 2 ^ k\<close>: the
  result of the expression is the exact value plus a \<open>d\<close> with \<open>\<bar>d\<bar> \<le> E * S\<close>.
\<close>

lemma round_bin_close_pow:
  assumes "\<bar>x\<bar> \<le> 2 ^ m" "0 < p" "emin \<le> 0"
  shows "\<bar>round_bin p emin x - x\<bar> \<le> 2 ^ m / 2 ^ p"
proof (cases "x = 0")
  case True
  then show ?thesis by (simp add: round_bin_def)
next
  case False
  define e where "e = max (ilog2 \<bar>x\<bar>) emin"
  define u :: rat where "u = 2 powi (e - (int p - 1))"
  have "(0::rat) < 2 ^ m" by simp
  then have "\<bar>x\<bar> < 2 * 2 ^ m" using assms(1) by linarith
  then have "\<bar>x\<bar> < 2 ^ (m + 1)" by simp
  then have "ilog2 \<bar>x\<bar> \<le> int (m + 1) - 1"
    by (intro ilog2_upper) (use False in simp_all)
  then have "e \<le> int m" using assms(3) by (simp add: e_def)
  then have "u \<le> 2 powi (int m - (int p - 1))"
    unfolding u_def by (intro power_int_increasing) simp_all
  also have "\<dots> = 2 * (2 ^ m / 2 ^ p)"
    using assms(2) by (simp add: power_int_diff power_int_add power_int_minus field_simps flip: power_add)
  finally have ub: "u \<le> 2 * (2 ^ m / 2 ^ p)" .
  have u0: "0 < u" by (simp add: u_def)
  have r: "round_bin p emin x = of_int (round_even (x / u)) * u"
    using False by (simp add: round_bin_def Let_def e_def u_def)
  have "of_int (round_even (x / u)) * u - x = (of_int (round_even (x / u)) - x / u) * u"
    using u0 by (simp add: algebra_simps)
  then have "\<bar>of_int (round_even (x / u)) * u - x\<bar> = \<bar>of_int (round_even (x / u)) - x / u\<bar> * u"
    using u0 by (simp only: abs_mult abs_of_pos)
  also have "\<dots> \<le> (1 / 2) * u"
    by (intro mult_right_mono round_even_close) (use u0 in simp)
  also have "\<dots> \<le> 2 ^ m / 2 ^ p" using ub by linarith
  finally show ?thesis by (simp add: r)
qed

lemma f32_close_pow:
  assumes "\<bar>x\<bar> \<le> 2 ^ m" "m \<le> 120"
  shows "\<exists>y. f32 x = Fin y \<and> \<bar>y - x\<bar> \<le> 2 ^ m / 2 ^ 24"
proof -
  have c: "\<bar>round_bin 24 (- 126) x - x\<bar> \<le> 2 ^ m / 2 ^ 24"
    by (rule round_bin_close_pow) (use assms in simp_all)
  have "(2::rat) ^ m \<le> 2 ^ 120" using assms(2) by (intro power_increasing) simp_all
  moreover have "(2::rat) ^ m / 2 ^ 24 \<le> 2 ^ m" by (simp add: field_simps)
  ultimately have "\<bar>round_bin 24 (- 126) x\<bar> \<le> 2 * 2 ^ 120" using assms(1) c by linarith
  then have "\<bar>round_bin 24 (- 126) x\<bar> \<le> 2 ^ 121" by simp
  then have "\<not> FLT_MAX < \<bar>round_bin 24 (- 126) x\<bar>" by (simp add: FLT_MAX_def)
  then show ?thesis using c by (simp add: f32_def Let_def)
qed

lemma f64_close_pow:
  assumes "\<bar>x\<bar> \<le> 2 ^ m" "m \<le> 120"
  shows "\<exists>y. f64 x = DFin y \<and> \<bar>y - x\<bar> \<le> 2 ^ m / 2 ^ 53"
proof -
  have c: "\<bar>round_bin 53 (- 1022) x - x\<bar> \<le> 2 ^ m / 2 ^ 53"
    by (rule round_bin_close_pow) (use assms in simp_all)
  have "(2::rat) ^ m \<le> 2 ^ 120" using assms(2) by (intro power_increasing) simp_all
  moreover have "(2::rat) ^ m / 2 ^ 53 \<le> 2 ^ m" by (simp add: field_simps)
  ultimately have "\<bar>round_bin 53 (- 1022) x\<bar> \<le> 2 * 2 ^ 120" using assms(1) c by linarith
  then have "\<bar>round_bin 53 (- 1022) x\<bar> \<le> 2 ^ 121" by simp
  then have "\<not> DBL_MAX < \<bar>round_bin 53 (- 1022) x\<bar>" by (simp add: DBL_MAX_def)
  then show ?thesis using c by (simp add: f64_def Let_def)
qed


lemma dmul_core:
  assumes S: "S = 2 ^ k" "k \<le> 100" and a: "\<bar>a\<bar> \<le> 64 * S" and c: "\<bar>c'\<bar> \<le> 4"
  shows "\<exists>p. DFin c' * DFin a = DFin p \<and> \<bar>p - c' * a\<bar> \<le> S / 35184372088832"
proof -
  have S0: "0 < S" by (simp add: S)
  have "\<bar>c'\<bar> * \<bar>a\<bar> \<le> 4 * (64 * S)"
    by (intro mult_mono c a) (use S0 in simp_all)
  then have ca: "\<bar>c' * a\<bar> \<le> 2 ^ (k + 8)" by (simp add: abs_mult power_add S)
  have "k + 8 \<le> 120" using S(2) by simp
  from f64_close_pow [OF ca this] obtain p where
    p: "f64 (c' * a) = DFin p" "\<bar>p - c' * a\<bar> \<le> 2 ^ (k + 8) / 2 ^ 53" by blast
  have "(2::rat) ^ (k + 8) / 2 ^ 53 = S / 35184372088832" by (simp add: power_add S)
  with p show ?thesis by (simp add: times_cdouble_def)
qed

lemma dlit_close:
  assumes "\<bar>c\<bar> \<le> 2"
  shows "\<exists>c'. dlit c = DFin c' \<and> \<bar>c' - c\<bar> \<le> 1 / 2 ^ 52"
proof -
  have "\<bar>c\<bar> \<le> 2 ^ 1" using assms by simp
  from f64_close_pow [OF this] show ?thesis by (simp add: dlit_def)
qed

lemma dmul_close:
  assumes S: "S = 2 ^ k" "k \<le> 100" and a: "\<bar>a\<bar> \<le> 64 * S" and c: "\<bar>c\<bar> \<le> 2"
  shows "\<exists>p. dlit c * d_of_f (Fin a) = DFin p \<and> \<bar>p - c * a\<bar> \<le> S / 17592186044416 \<and> \<bar>p\<bar> \<le> 129 * S"
proof -
  have S0: "0 < S" by (simp add: S)
  from dlit_close [OF c] obtain c' where c': "dlit c = DFin c'" "\<bar>c' - c\<bar> \<le> 1 / 2 ^ 52" by blast
  have c1: "\<bar>c' - c\<bar> \<le> 1" by (rule order_trans [OF c'(2)]) simp
  have c4: "\<bar>c'\<bar> \<le> 4" using c c1 by linarith
  from dmul_core [OF S a c4] obtain p where
    p: "DFin c' * DFin a = DFin p" "\<bar>p - c' * a\<bar> \<le> S / 35184372088832" by blast
  have "\<bar>c' * a - c * a\<bar> = \<bar>c' - c\<bar> * \<bar>a\<bar>" by (simp add: abs_mult left_diff_distrib flip: abs_mult)
  also have "\<dots> \<le> (1 / 2 ^ 52) * (64 * S)"
    by (intro mult_mono c'(2) a) (use S0 in simp_all)
  finally have e: "\<bar>c' * a - c * a\<bar> \<le> S / 70368744177664" by simp
  have "\<bar>c\<bar> * \<bar>a\<bar> \<le> 2 * (64 * S)"
    by (intro mult_mono c a) (use S0 in simp_all)
  then have m: "\<bar>c * a\<bar> \<le> 128 * S" by (simp add: abs_mult)
  have "\<bar>p - c * a\<bar> \<le> S / 17592186044416" using e p(2) S0 by linarith
  moreover from this m S0 have "\<bar>p\<bar> \<le> 129 * S" by linarith
  ultimately show ?thesis using p(1) by (simp add: c' d_of_f_def)
qed

lemma dmul_neg_close:
  assumes S: "S = 2 ^ k" "k \<le> 100" and a: "\<bar>a\<bar> \<le> 64 * S" and c: "\<bar>c\<bar> \<le> 2"
  shows "\<exists>p. (- dlit c) * d_of_f (Fin a) = DFin p \<and> \<bar>p - (- c) * a\<bar> \<le> S / 17592186044416 \<and> \<bar>p\<bar> \<le> 129 * S"
proof -
  have S0: "0 < S" by (simp add: S)
  from dlit_close [OF c] obtain c' where c': "dlit c = DFin c'" "\<bar>c' - c\<bar> \<le> 1 / 2 ^ 52" by blast
  have c1: "\<bar>c' - c\<bar> \<le> 1" by (rule order_trans [OF c'(2)]) simp
  have c4: "\<bar>- c'\<bar> \<le> 4" using c c1 by linarith
  from dmul_core [OF S a c4] obtain p where
    p: "DFin (- c') * DFin a = DFin p" "\<bar>p - (- c') * a\<bar> \<le> S / 35184372088832" by blast
  have "\<bar>(- c') * a - (- c) * a\<bar> = \<bar>c' - c\<bar> * \<bar>a\<bar>"
    by (simp add: abs_mult left_diff_distrib abs_minus_commute flip: abs_mult)
  also have "\<dots> \<le> (1 / 2 ^ 52) * (64 * S)"
    by (intro mult_mono c'(2) a) (use S0 in simp_all)
  finally have e: "\<bar>(- c') * a - (- c) * a\<bar> \<le> S / 70368744177664" by simp
  have "\<bar>c\<bar> * \<bar>a\<bar> \<le> 2 * (64 * S)"
    by (intro mult_mono c a) (use S0 in simp_all)
  then have m: "\<bar>(- c) * a\<bar> \<le> 128 * S" by (simp add: abs_mult)
  have "\<bar>p - (- c) * a\<bar> \<le> S / 17592186044416" using e p(2) S0 by linarith
  moreover from this m S0 have "\<bar>p\<bar> \<le> 129 * S" by linarith
  ultimately show ?thesis using p(1) by (simp add: c' d_of_f_def uminus_cdouble_def)
qed

lemma dadd_close:
  assumes S: "S = 2 ^ k" "k \<le> 100" and "\<bar>p\<bar> \<le> 256 * S" "\<bar>q\<bar> \<le> 256 * S"
  shows "\<exists>s. DFin p + DFin q = DFin s \<and> \<bar>s - (p + q)\<bar> \<le> S / 17592186044416"
proof -
  have "\<bar>p + q\<bar> \<le> 512 * S" using assms(3,4) by linarith
  then have b: "\<bar>p + q\<bar> \<le> 2 ^ (k + 9)" by (simp add: power_add S)
  have "k + 9 \<le> 120" using S(2) by simp
  from f64_close_pow [OF b this] obtain s where
    s: "f64 (p + q) = DFin s" "\<bar>s - (p + q)\<bar> \<le> 2 ^ (k + 9) / 2 ^ 53" by blast
  have "(2::rat) ^ (k + 9) / 2 ^ 53 = S / 17592186044416" by (simp add: power_add S)
  with s show ?thesis by (simp add: plus_cdouble_def)
qed

lemma dsub_close:
  assumes S: "S = 2 ^ k" "k \<le> 100" and "\<bar>p\<bar> \<le> 256 * S" "\<bar>q\<bar> \<le> 256 * S"
  shows "\<exists>s. DFin p - DFin q = DFin s \<and> \<bar>s - (p - q)\<bar> \<le> S / 17592186044416"
proof -
  have "\<bar>p - q\<bar> \<le> 512 * S" using assms(3,4) by linarith
  then have b: "\<bar>p - q\<bar> \<le> 2 ^ (k + 9)" by (simp add: power_add S)
  have "k + 9 \<le> 120" using S(2) by simp
  from f64_close_pow [OF b this] obtain s where
    s: "f64 (p - q) = DFin s" "\<bar>s - (p - q)\<bar> \<le> 2 ^ (k + 9) / 2 ^ 53" by blast
  have "(2::rat) ^ (k + 9) / 2 ^ 53 = S / 17592186044416" by (simp add: power_add S)
  with s show ?thesis by (simp add: minus_cdouble_def)
qed

lemma fround_close:
  assumes S: "S = 2 ^ k" "k \<le> 100" and j: "j \<le> 8" and "\<bar>s\<bar> \<le> 2 ^ j * S"
  shows "\<exists>r. f32 s = Fin r \<and> \<bar>r - s\<bar> \<le> 2 ^ j * S / 16777216"
proof -
  have b: "\<bar>s\<bar> \<le> 2 ^ (j + k)" using assms(4) by (simp add: power_add S)
  have "j + k \<le> 120" using S(2) j by simp
  from f32_close_pow [OF b this] show ?thesis by (simp add: power_add S)
qed


lemma fround_shape:
  assumes S: "S = 2 ^ k" "k \<le> 100" and J: "J = 2 ^ j" "j \<le> 8"
    and MJ: "M + 1 / 1048576 \<le> J" and JE: "J / 16777216 + 1 / 274877906944 \<le> E"
    and s: "\<bar>s - ex\<bar> \<le> S / 2199023255552" and m: "\<bar>ex\<bar> \<le> M * S"
  shows "\<exists>r d. f32 s = Fin r \<and> r = ex + d \<and> - (E * S) \<le> d \<and> d \<le> E * S"
proof -
  have S0: "0 < S" by (simp add: S)
  have "(M + 1 / 1048576) * S \<le> J * S" by (intro mult_right_mono MJ) (use S0 in simp)
  then have a1: "M * S + S / 1048576 \<le> J * S" by (simp add: algebra_simps)
  have "(J / 16777216 + 1 / 274877906944) * S \<le> E * S" by (intro mult_right_mono JE) (use S0 in simp)
  then have a2: "J * S / 16777216 + S / 274877906944 \<le> E * S" by (simp add: algebra_simps)
  have "\<bar>s\<bar> \<le> J * S" using s m a1 S0 by linarith
  then have "\<bar>s\<bar> \<le> 2 ^ j * S" by (simp add: J)
  from fround_close [OF S J(2) this] obtain r where
    r: "f32 s = Fin r" "\<bar>r - s\<bar> \<le> J * S / 16777216" by (auto simp add: J)
  have "\<bar>r - ex\<bar> \<le> E * S" using r(2) s a2 S0 by linarith
  then have "- (E * S) \<le> r - ex \<and> r - ex \<le> E * S" by linarith
  with r(1) show ?thesis by (intro exI [of _ r] exI [of _ "r - ex"]) simp
qed

lemma fadd_close:
  assumes S: "S = 2 ^ k" "k \<le> 100" and J: "J = 2 ^ j" "j \<le> 8"
    and MJ: "M + 1 / 1048576 \<le> J" and JE: "J / 16777216 + 1 / 274877906944 \<le> E"
    and m: "\<bar>a + b\<bar> \<le> M * S"
  shows "\<exists>r d. Fin a + Fin b = Fin r \<and> r = (a + b) + d \<and> - (E * S) \<le> d \<and> d \<le> E * S"
proof -
  have S0: "0 < S" by (simp add: S)
  have "\<bar>(a + b) - (a + b)\<bar> \<le> S / 2199023255552" using S0 by simp
  from fround_shape [OF S J MJ JE this m] show ?thesis by (simp add: plus_cfloat_def)
qed

lemma fsub_close:
  assumes S: "S = 2 ^ k" "k \<le> 100" and J: "J = 2 ^ j" "j \<le> 8"
    and MJ: "M + 1 / 1048576 \<le> J" and JE: "J / 16777216 + 1 / 274877906944 \<le> E"
    and m: "\<bar>a - b\<bar> \<le> M * S"
  shows "\<exists>r d. Fin a - Fin b = Fin r \<and> r = (a - b) + d \<and> - (E * S) \<le> d \<and> d \<le> E * S"
proof -
  have S0: "0 < S" by (simp add: S)
  have "\<bar>(a - b) - (a - b)\<bar> \<le> S / 2199023255552" using S0 by simp
  from fround_shape [OF S J MJ JE this m] show ?thesis by (simp add: minus_cfloat_def)
qed

lemma mul1_close:
  assumes S: "S = 2 ^ k" "k \<le> 100" and J: "J = 2 ^ j" "j \<le> 8"
    and MJ: "M + 1 / 1048576 \<le> J" and JE: "J / 16777216 + 1 / 274877906944 \<le> E"
    and a: "\<bar>a\<bar> \<le> 64 * S" and c1: "\<bar>c1\<bar> \<le> 2"
    and m: "\<bar>c1 * a\<bar> \<le> M * S"
  shows "\<exists>r d. f_of_d (dlit c1 * d_of_f (Fin a)) = Fin r \<and> r = (c1 * a) + d \<and> - (E * S) \<le> d \<and> d \<le> E * S"
proof -
  have S0: "0 < S" by (simp add: S)
  from dmul_close [OF S a c1] obtain p where
    p: "dlit c1 * d_of_f (Fin a) = DFin p" "\<bar>p - c1 * a\<bar> \<le> S / 17592186044416" "\<bar>p\<bar> \<le> 129 * S" by blast

  have "\<bar>p - (c1 * a)\<bar> \<le> S / 2199023255552" using p(2) S0 by linarith
  from fround_shape [OF S J MJ JE this m] show ?thesis
    by (simp add: p f_of_d_def)
qed

lemma zmul1_close:
  assumes S: "S = 2 ^ k" "k \<le> 100" and J: "J = 2 ^ j" "j \<le> 8"
    and MJ: "M + 1 / 1048576 \<le> J" and JE: "J / 16777216 + 1 / 274877906944 \<le> E"
    and a: "\<bar>a\<bar> \<le> 64 * S" and c1: "\<bar>c1\<bar> \<le> 2"
    and m: "\<bar>c1 * a\<bar> \<le> M * S"
  shows "\<exists>r d. f_of_d (d_of_f (f_of_int 0) + dlit c1 * d_of_f (Fin a)) = Fin r \<and> r = (c1 * a) + d \<and> - (E * S) \<le> d \<and> d \<le> E * S"
proof -
  have S0: "0 < S" by (simp add: S)
  have z: "d_of_f (f_of_int 0) = DFin 0" by (simp add: d_of_f_def f_of_int_def f32_def round_bin_def FLT_MAX_def)
  have zb: "\<bar>0 :: rat\<bar> \<le> 256 * S" using S0 by simp
  from dmul_close [OF S a c1] obtain p where
    p: "dlit c1 * d_of_f (Fin a) = DFin p" "\<bar>p - c1 * a\<bar> \<le> S / 17592186044416" "\<bar>p\<bar> \<le> 129 * S" by blast
  have pb: "\<bar>p\<bar> \<le> 256 * S" using p(3) S0 by linarith
  from dadd_close [OF S zb pb] obtain s where
    s: "DFin 0 + DFin p = DFin s" "\<bar>s - (0 + p)\<bar> \<le> S / 17592186044416" by blast

  have "\<bar>s - (c1 * a)\<bar> \<le> S / 2199023255552" using p(2) s(2) S0 by linarith
  from fround_shape [OF S J MJ JE this m] show ?thesis
    by (simp add: z p s f_of_d_def)
qed

lemma lin2pp_close:
  assumes S: "S = 2 ^ k" "k \<le> 100" and J: "J = 2 ^ j" "j \<le> 8"
    and MJ: "M + 1 / 1048576 \<le> J" and JE: "J / 16777216 + 1 / 274877906944 \<le> E"
    and a: "\<bar>a\<bar> \<le> 64 * S" and c1: "\<bar>c1\<bar> \<le> 2"
    and b: "\<bar>b\<bar> \<le> 64 * S" and c2: "\<bar>c2\<bar> \<le> 2"
    and m: "\<bar>c1 * a + c2 * b\<bar> \<le> M * S"
  shows "\<exists>r d. f_of_d (dlit c1 * d_of_f (Fin a) + dlit c2 * d_of_f (Fin b)) = Fin r \<and> r = (c1 * a + c2 * b) + d \<and> - (E * S) \<le> d \<and> d \<le> E * S"
proof -
  have S0: "0 < S" by (simp add: S)
  from dmul_close [OF S a c1] obtain p where
    p: "dlit c1 * d_of_f (Fin a) = DFin p" "\<bar>p - c1 * a\<bar> \<le> S / 17592186044416" "\<bar>p\<bar> \<le> 129 * S" by blast
  from dmul_close [OF S b c2] obtain q where
    q: "dlit c2 * d_of_f (Fin b) = DFin q" "\<bar>q - c2 * b\<bar> \<le> S / 17592186044416" "\<bar>q\<bar> \<le> 129 * S" by blast
  have pb: "\<bar>p\<bar> \<le> 256 * S" "\<bar>q\<bar> \<le> 256 * S" using p(3) q(3) S0 by linarith+
  from dadd_close [OF S pb] obtain s where
    s: "DFin p + DFin q = DFin s" "\<bar>s - (p + q)\<bar> \<le> S / 17592186044416" by blast

  have "\<bar>s - (c1 * a + c2 * b)\<bar> \<le> S / 2199023255552" using p(2) q(2) s(2) S0 by linarith
  from fround_shape [OF S J MJ JE this m] show ?thesis
    by (simp add: p q s f_of_d_def)
qed

lemma lin2np_close:
  assumes S: "S = 2 ^ k" "k \<le> 100" and J: "J = 2 ^ j" "j \<le> 8"
    and MJ: "M + 1 / 1048576 \<le> J" and JE: "J / 16777216 + 1 / 274877906944 \<le> E"
    and a: "\<bar>a\<bar> \<le> 64 * S" and c1: "\<bar>c1\<bar> \<le> 2"
    and b: "\<bar>b\<bar> \<le> 64 * S" and c2: "\<bar>c2\<bar> \<le> 2"
    and m: "\<bar>(- c1) * a + c2 * b\<bar> \<le> M * S"
  shows "\<exists>r d. f_of_d ((- dlit c1) * d_of_f (Fin a) + dlit c2 * d_of_f (Fin b)) = Fin r \<and> r = ((- c1) * a + c2 * b) + d \<and> - (E * S) \<le> d \<and> d \<le> E * S"
proof -
  have S0: "0 < S" by (simp add: S)
  from dmul_neg_close [OF S a c1] obtain p where
    p: "(- dlit c1) * d_of_f (Fin a) = DFin p" "\<bar>p - (- c1) * a\<bar> \<le> S / 17592186044416" "\<bar>p\<bar> \<le> 129 * S" by blast
  from dmul_close [OF S b c2] obtain q where
    q: "dlit c2 * d_of_f (Fin b) = DFin q" "\<bar>q - c2 * b\<bar> \<le> S / 17592186044416" "\<bar>q\<bar> \<le> 129 * S" by blast
  have pb: "\<bar>p\<bar> \<le> 256 * S" "\<bar>q\<bar> \<le> 256 * S" using p(3) q(3) S0 by linarith+
  from dadd_close [OF S pb] obtain s where
    s: "DFin p + DFin q = DFin s" "\<bar>s - (p + q)\<bar> \<le> S / 17592186044416" by blast

  have "\<bar>s - ((- c1) * a + c2 * b)\<bar> \<le> S / 2199023255552" using p(2) q(2) s(2) S0 by linarith
  from fround_shape [OF S J MJ JE this m] show ?thesis
    by (simp add: p q s f_of_d_def)
qed

lemma lin2pm_close:
  assumes S: "S = 2 ^ k" "k \<le> 100" and J: "J = 2 ^ j" "j \<le> 8"
    and MJ: "M + 1 / 1048576 \<le> J" and JE: "J / 16777216 + 1 / 274877906944 \<le> E"
    and a: "\<bar>a\<bar> \<le> 64 * S" and c1: "\<bar>c1\<bar> \<le> 2"
    and b: "\<bar>b\<bar> \<le> 64 * S" and c2: "\<bar>c2\<bar> \<le> 2"
    and m: "\<bar>c1 * a - c2 * b\<bar> \<le> M * S"
  shows "\<exists>r d. f_of_d (dlit c1 * d_of_f (Fin a) - dlit c2 * d_of_f (Fin b)) = Fin r \<and> r = (c1 * a - c2 * b) + d \<and> - (E * S) \<le> d \<and> d \<le> E * S"
proof -
  have S0: "0 < S" by (simp add: S)
  from dmul_close [OF S a c1] obtain p where
    p: "dlit c1 * d_of_f (Fin a) = DFin p" "\<bar>p - c1 * a\<bar> \<le> S / 17592186044416" "\<bar>p\<bar> \<le> 129 * S" by blast
  from dmul_close [OF S b c2] obtain q where
    q: "dlit c2 * d_of_f (Fin b) = DFin q" "\<bar>q - c2 * b\<bar> \<le> S / 17592186044416" "\<bar>q\<bar> \<le> 129 * S" by blast
  have pb: "\<bar>p\<bar> \<le> 256 * S" "\<bar>q\<bar> \<le> 256 * S" using p(3) q(3) S0 by linarith+
  from dsub_close [OF S pb] obtain s where
    s: "DFin p - DFin q = DFin s" "\<bar>s - (p - q)\<bar> \<le> S / 17592186044416" by blast

  have "\<bar>s - (c1 * a - c2 * b)\<bar> \<le> S / 2199023255552" using p(2) q(2) s(2) S0 by linarith
  from fround_shape [OF S J MJ JE this m] show ?thesis
    by (simp add: p q s f_of_d_def)
qed

lemma zlin2pp_close:
  assumes S: "S = 2 ^ k" "k \<le> 100" and J: "J = 2 ^ j" "j \<le> 8"
    and MJ: "M + 1 / 1048576 \<le> J" and JE: "J / 16777216 + 1 / 274877906944 \<le> E"
    and a: "\<bar>a\<bar> \<le> 64 * S" and c1: "\<bar>c1\<bar> \<le> 2"
    and b: "\<bar>b\<bar> \<le> 64 * S" and c2: "\<bar>c2\<bar> \<le> 2"
    and m: "\<bar>c1 * a + c2 * b\<bar> \<le> M * S"
  shows "\<exists>r d. f_of_d (d_of_f (f_of_int 0) + dlit c1 * d_of_f (Fin a) + dlit c2 * d_of_f (Fin b)) = Fin r \<and> r = (c1 * a + c2 * b) + d \<and> - (E * S) \<le> d \<and> d \<le> E * S"
proof -
  have S0: "0 < S" by (simp add: S)
  have z: "d_of_f (f_of_int 0) = DFin 0" by (simp add: d_of_f_def f_of_int_def f32_def round_bin_def FLT_MAX_def)
  have zb: "\<bar>0 :: rat\<bar> \<le> 256 * S" using S0 by simp
  from dmul_close [OF S a c1] obtain p where
    p: "dlit c1 * d_of_f (Fin a) = DFin p" "\<bar>p - c1 * a\<bar> \<le> S / 17592186044416" "\<bar>p\<bar> \<le> 129 * S" by blast
  from dmul_close [OF S b c2] obtain q where
    q: "dlit c2 * d_of_f (Fin b) = DFin q" "\<bar>q - c2 * b\<bar> \<le> S / 17592186044416" "\<bar>q\<bar> \<le> 129 * S" by blast
  have pb: "\<bar>p\<bar> \<le> 256 * S" using p(3) S0 by linarith
  from dadd_close [OF S zb pb] obtain s where
    s: "DFin 0 + DFin p = DFin s" "\<bar>s - (0 + p)\<bar> \<le> S / 17592186044416" by blast
  have sb: "\<bar>s\<bar> \<le> 256 * S" using s(2) p(3) S0 by linarith
  have qb: "\<bar>q\<bar> \<le> 256 * S" using q(3) S0 by linarith
  from dadd_close [OF S sb qb] obtain u where
    u: "DFin s + DFin q = DFin u" "\<bar>u - (s + q)\<bar> \<le> S / 17592186044416" by blast

  have "\<bar>u - (c1 * a + c2 * b)\<bar> \<le> S / 2199023255552" using p(2) q(2) s(2) u(2) S0 by linarith
  from fround_shape [OF S J MJ JE this m] show ?thesis
    by (simp add: z p q s u f_of_d_def)
qed

lemma zlin2pm_close:
  assumes S: "S = 2 ^ k" "k \<le> 100" and J: "J = 2 ^ j" "j \<le> 8"
    and MJ: "M + 1 / 1048576 \<le> J" and JE: "J / 16777216 + 1 / 274877906944 \<le> E"
    and a: "\<bar>a\<bar> \<le> 64 * S" and c1: "\<bar>c1\<bar> \<le> 2"
    and b: "\<bar>b\<bar> \<le> 64 * S" and c2: "\<bar>c2\<bar> \<le> 2"
    and m: "\<bar>c1 * a - c2 * b\<bar> \<le> M * S"
  shows "\<exists>r d. f_of_d (d_of_f (f_of_int 0) + dlit c1 * d_of_f (Fin a) - dlit c2 * d_of_f (Fin b)) = Fin r \<and> r = (c1 * a - c2 * b) + d \<and> - (E * S) \<le> d \<and> d \<le> E * S"
proof -
  have S0: "0 < S" by (simp add: S)
  have z: "d_of_f (f_of_int 0) = DFin 0" by (simp add: d_of_f_def f_of_int_def f32_def round_bin_def FLT_MAX_def)
  have zb: "\<bar>0 :: rat\<bar> \<le> 256 * S" using S0 by simp
  from dmul_close [OF S a c1] obtain p where
    p: "dlit c1 * d_of_f (Fin a) = DFin p" "\<bar>p - c1 * a\<bar> \<le> S / 17592186044416" "\<bar>p\<bar> \<le> 129 * S" by blast
  from dmul_close [OF S b c2] obtain q where
    q: "dlit c2 * d_of_f (Fin b) = DFin q" "\<bar>q - c2 * b\<bar> \<le> S / 17592186044416" "\<bar>q\<bar> \<le> 129 * S" by blast
  have pb: "\<bar>p\<bar> \<le> 256 * S" using p(3) S0 by linarith
  from dadd_close [OF S zb pb] obtain s where
    s: "DFin 0 + DFin p = DFin s" "\<bar>s - (0 + p)\<bar> \<le> S / 17592186044416" by blast
  have sb: "\<bar>s\<bar> \<le> 256 * S" using s(2) p(3) S0 by linarith
  have qb: "\<bar>q\<bar> \<le> 256 * S" using q(3) S0 by linarith
  from dsub_close [OF S sb qb] obtain u where
    u: "DFin s - DFin q = DFin u" "\<bar>u - (s - q)\<bar> \<le> S / 17592186044416" by blast

  have "\<bar>u - (c1 * a - c2 * b)\<bar> \<le> S / 2199023255552" using p(2) q(2) s(2) u(2) S0 by linarith
  from fround_shape [OF S J MJ JE this m] show ?thesis
    by (simp add: z p q s u f_of_d_def)
qed

end
